theory Spec2Isabelle
  imports Complex_Main "HOL-Library.AList" "HOL-Library.Log_Nat"
begin

section \<open>JavaScript numbers\<close>

text \<open>
  A JavaScript number is an IEEE-754 double: a finite value (a rational number), one of
  the two infinities, or NaN. The two zeros are not told apart (no operation below yields
  the negative one from the values the store computes with).

  \<open>round_double a q\<close> is the double nearest to the quotient \<open>a / q\<close> of an integer by a
  positive integer, ties going to the even significand: with \<open>e\<close> the binary exponent of
  the quotient (at least \<open>-1022\<close>, the exponent of the subnormal numbers) the quotient is
  rounded to a multiple of \<open>2 ^ (e - 52)\<close>, and a result of \<open>2 ^ 1024\<close> or more is an
  infinity. \<open>to_double\<close> rounds a rational number, \<open>js_add\<close> and \<open>js_div\<close> are \<open>+\<close> and
  \<open>/\<close> on numbers: the exact result, rounded.
\<close>

datatype number = Finite rat | PosInfinity | NegInfinity | NaN

definition round_half_even :: "int \<Rightarrow> int \<Rightarrow> int" where
  "round_half_even num den =
     (let m = num div den; r = num mod den
      in if 2 * r < den then m
         else if 2 * r > den then m + 1
         else if even m then m else m + 1)"

text \<open>The binary exponent \<open>\<lfloor>log\<^sub>2 (p / q)\<rfloor>\<close> of a quotient of positive integers.\<close>

definition floor_log2 :: "int \<Rightarrow> int \<Rightarrow> int" where
  "floor_log2 p q =
     (let d = bitlen p - bitlen q
      in if q * 2 ^ nat d \<le> p * 2 ^ nat (- d) then d else d - 1)"

definition round_double :: "int \<Rightarrow> int \<Rightarrow> number" where
  "round_double a q =
     (if a = 0 then Finite 0
      else
        let p = \<bar>a\<bar>;
            e = max (floor_log2 p q) (- 1022);
            m = round_half_even (p * 2 ^ nat (52 - e)) (q * 2 ^ nat (e - 52))
        in if e \<ge> 1024 \<or> (e = 1023 \<and> m \<ge> 2 ^ 53)
           then (if a > 0 then PosInfinity else NegInfinity)
           else Finite (of_int (sgn a * m * 2 ^ nat (e - 52)) / of_int (2 ^ nat (52 - e))))"

definition to_double :: "rat \<Rightarrow> number" where
  "to_double x = (case quotient_of x of (a, q) \<Rightarrow> round_double a q)"

fun js_add :: "number \<Rightarrow> number \<Rightarrow> number" where
  "js_add NaN y = NaN"
| "js_add x NaN = NaN"
| "js_add PosInfinity NegInfinity = NaN"
| "js_add NegInfinity PosInfinity = NaN"
| "js_add PosInfinity y = PosInfinity"
| "js_add NegInfinity y = NegInfinity"
| "js_add x PosInfinity = PosInfinity"
| "js_add x NegInfinity = NegInfinity"
| "js_add (Finite x) (Finite y) = to_double (x + y)"

fun js_div :: "number \<Rightarrow> number \<Rightarrow> number" where
  "js_div NaN y = NaN"
| "js_div x NaN = NaN"
| "js_div (Finite x) (Finite y) =
     (if y = 0 then (if x = 0 then NaN else if x > 0 then PosInfinity else NegInfinity)
      else to_double (x / y))"
| "js_div (Finite x) y = Finite 0"
| "js_div PosInfinity (Finite y) = (if y < 0 then NegInfinity else PosInfinity)"
| "js_div NegInfinity (Finite y) = (if y < 0 then PosInfinity else NegInfinity)"
| "js_div x y = NaN"

section \<open>Entity schema\<close>

text \<open>
  The entities of the shared schema, as the in-memory store holds them. A JavaScript
  number that is an identifier or an integer column is an \<open>int\<close>; a weight or a price,
  which the store only compares, is a HOL \<open>real\<close>; the rating of a user, which the store
  computes, is a \<open>number\<close>; a \<open>Date\<close> is its time value in milliseconds
  (\<open>getTime()\<close>) and is always a valid date. A nullable column
  whose value the store itself always assigns (\<open>isVerified\<close>, \<open>rating\<close>, a delivery's
  \<open>status\<close>, a message's \<open>createdAt\<close>, ...) has its plain type; a nullable column that an
  insert payload may leave out or that \<open>updateTrip\<close>/\<open>updatePackage\<close> may overwrite is an
  \<open>option\<close>, \<open>None\<close> standing for both \<open>null\<close> and \<open>undefined\<close>. Field names carry a
  prefix per record, since record fields share one name space.
\<close>

type_synonym date = int

record verification_status =
  idVerified :: bool
  phoneVerified :: bool
  addressVerified :: bool

text \<open>\<open>Partial<User['verificationStatus']>\<close>: \<open>None\<close> is a key that is not supplied.\<close>

record verification_partial =
  vp_idVerified :: "bool option"
  vp_phoneVerified :: "bool option"
  vp_addressVerified :: "bool option"

record insert_user =
  iu_password :: string
  iu_email :: string
  iu_firstName :: string
  iu_lastName :: string
  iu_profileImage :: "string option"

record user =
  u_id :: int
  u_password :: string
  u_email :: string
  u_firstName :: string
  u_lastName :: string
  u_profileImage :: "string option"
  u_isVerified :: bool
  u_verificationStatus :: verification_status
  u_createdAt :: date
  u_rating :: number
  u_reviewCount :: nat

record insert_trip =
  it_departureAirport :: string
  it_destinationCity :: string
  it_departureDate :: date
  it_arrivalDate :: date
  it_airline :: "string option"
  it_flightNumber :: "string option"
  it_availableWeight :: real
  it_pricePerKg :: real
  it_notes :: "string option"

record trip =
  t_id :: int
  t_userId :: int
  t_departureAirport :: string
  t_destinationCity :: string
  t_departureDate :: date
  t_arrivalDate :: date
  t_airline :: "string option"
  t_flightNumber :: "string option"
  t_availableWeight :: real
  t_pricePerKg :: real
  t_notes :: "string option"
  t_isActive :: "bool option"
  t_createdAt :: "date option"

text \<open>\<open>Partial<Trip>\<close>: the outer \<open>None\<close> is a key that is not supplied.\<close>

record trip_partial =
  tp_id :: "int option"
  tp_userId :: "int option"
  tp_departureAirport :: "string option"
  tp_destinationCity :: "string option"
  tp_departureDate :: "date option"
  tp_arrivalDate :: "date option"
  tp_airline :: "string option option"
  tp_flightNumber :: "string option option"
  tp_availableWeight :: "real option"
  tp_pricePerKg :: "real option"
  tp_notes :: "string option option"
  tp_isActive :: "bool option option"
  tp_createdAt :: "date option option"

record dimensions =
  dim_length :: real
  dim_width :: real
  dim_height :: real

record insert_package =
  ip_senderCity :: string
  ip_receiverCity :: string
  ip_packageType :: string
  ip_weight :: real
  ip_dimensions :: "dimensions option"
  ip_deliveryDeadline :: "date option"
  ip_offeredPayment :: real
  ip_description :: "string option"

record package =
  p_id :: int
  p_userId :: int
  p_senderCity :: string
  p_receiverCity :: string
  p_packageType :: string
  p_weight :: real
  p_dimensions :: "dimensions option"
  p_deliveryDeadline :: "date option"
  p_offeredPayment :: real
  p_description :: "string option"
  p_status :: "string option"
  p_isActive :: "bool option"
  p_createdAt :: "date option"

text \<open>\<open>Partial<Package>\<close>.\<close>

record package_partial =
  pp_id :: "int option"
  pp_userId :: "int option"
  pp_senderCity :: "string option"
  pp_receiverCity :: "string option"
  pp_packageType :: "string option"
  pp_weight :: "real option"
  pp_dimensions :: "dimensions option option"
  pp_deliveryDeadline :: "date option option"
  pp_offeredPayment :: "real option"
  pp_description :: "string option option"
  pp_status :: "string option option"
  pp_isActive :: "bool option option"
  pp_createdAt :: "date option option"

text \<open>
  \<open>insertDeliverySchema\<close> omits \<open>id\<close>, \<open>createdAt\<close>, \<open>updatedAt\<close>, \<open>status\<close> and
  \<open>paymentStatus\<close>: the validated payload has the four references only.
\<close>

record insert_delivery =
  idl_tripId :: int
  idl_packageId :: int
  idl_travelerId :: int
  idl_senderId :: int

record delivery =
  d_id :: int
  d_tripId :: int
  d_packageId :: int
  d_travelerId :: int
  d_senderId :: int
  d_status :: string
  d_paymentStatus :: string
  d_createdAt :: date
  d_updatedAt :: date

record insert_message =
  im_senderId :: int
  im_receiverId :: int
  im_content :: string

record message =
  m_id :: int
  m_senderId :: int
  m_receiverId :: int
  m_content :: string
  m_isRead :: bool
  m_createdAt :: date

record insert_review =
  ir_reviewerId :: int
  ir_revieweeId :: int
  ir_deliveryId :: "int option"
  ir_rating :: int
  ir_comment :: "string option"

record review =
  r_id :: int
  r_reviewerId :: int
  r_revieweeId :: int
  r_deliveryId :: "int option"
  r_rating :: int
  r_comment :: "string option"
  r_createdAt :: date


section \<open>JavaScript values the storage code relies on\<close>

text \<open>
  A \<open>Map<number, T>\<close> keeps its entries in insertion order and \<open>set\<close> on a key that is
  present replaces the value in place: an association list read with \<open>map_of\<close> and written
  with \<open>AList.update\<close>. \<open>Array.from(m.values())\<close> is the list of the second components.
\<close>

type_synonym 'v js_map = "(int \<times> 'v) list"

definition map_get :: "'v js_map \<Rightarrow> int \<Rightarrow> 'v option" where
  "map_get m k = map_of m k"

definition map_set :: "'v js_map \<Rightarrow> int \<Rightarrow> 'v \<Rightarrow> 'v js_map" where
  "map_set m k v = AList.update k v m"

definition map_values :: "'v js_map \<Rightarrow> 'v list" where
  "map_values m = map snd m"

text \<open>
  \<open>String.prototype.toLowerCase\<close>, on the ASCII letters (a character outside ASCII is left
  as it is), and \<open>String.prototype.includes\<close>, here \<open>str_includes\<close>: the search string
  occurs at some position of the string, the empty search string at every position.
\<close>

definition toLowerChar :: "char \<Rightarrow> char" where
  "toLowerChar c =
     (case map_of (zip ''ABCDEFGHIJKLMNOPQRSTUVWXYZ'' ''abcdefghijklmnopqrstuvwxyz'') c of
        None \<Rightarrow> c
      | Some l \<Rightarrow> l)"

definition toLowerCase :: "string \<Rightarrow> string" where
  "toLowerCase s = map toLowerChar s"

fun startsWith :: "string \<Rightarrow> string \<Rightarrow> bool" where
  "startsWith s [] = True"
| "startsWith [] (c # cs) = False"
| "startsWith (x # xs) (c # cs) = (x = c \<and> startsWith xs cs)"

fun str_includes :: "string \<Rightarrow> string \<Rightarrow> bool" where
  "str_includes [] sub = (sub = [])"
| "str_includes (x # xs) sub = (startsWith (x # xs) sub \<or> str_includes xs sub)"

text \<open>Truthiness of an optional boolean: \<open>null\<close>, \<open>undefined\<close> and \<open>false\<close> are falsy.\<close>

definition truthy :: "bool option \<Rightarrow> bool" where
  "truthy b = (b = Some True)"

text \<open>The object spread \<open>{...x, ...patch}\<close>, field by field: a supplied key wins.\<close>

definition spread :: "'a \<Rightarrow> 'a option \<Rightarrow> 'a" where
  "spread x patch = (case patch of None \<Rightarrow> x | Some v \<Rightarrow> v)"

section \<open>The in-memory store\<close>

record MemStorage =
  users :: "user js_map"
  trips :: "trip js_map"
  packages :: "package js_map"
  deliveries :: "delivery js_map"
  messages :: "message js_map"
  reviews :: "review js_map"
  userId :: int
  tripId :: int
  packageId :: int
  deliveryId :: int
  messageId :: int
  reviewId :: int

text \<open>The constructor: six empty maps, every counter at 1.\<close>

definition MemStorage_new :: MemStorage where
  "MemStorage_new =
     \<lparr>users = [], trips = [], packages = [], deliveries = [], messages = [], reviews = [],
      userId = 1, tripId = 1, packageId = 1, deliveryId = 1, messageId = 1, reviewId = 1\<rparr>"

datatype error = UserNotFound

datatype delivery_role = Traveler | Sender

datatype review_role = Reviewer | Reviewee

text \<open>
  Every operation takes the store and returns its result with the store afterwards. The
  clock (\<open>new Date()\<close>) and the salted hash (\<open>hashPassword\<close>, which draws random bytes)
  are arguments.
\<close>

subsection \<open>Users\<close>

definition getUser :: "MemStorage \<Rightarrow> int \<Rightarrow> user option" where
  "getUser s i = map_get (users s) i"

definition getUserByEmail :: "MemStorage \<Rightarrow> string \<Rightarrow> user option" where
  "getUserByEmail s email =
     find (\<lambda>user. toLowerCase (u_email user) = toLowerCase email) (map_values (users s))"

definition getUserByUsername :: "MemStorage \<Rightarrow> string \<Rightarrow> user option" where
  "getUserByUsername s username =
     find (\<lambda>user. toLowerCase (u_email user) = toLowerCase username) (map_values (users s))"

definition createUser :: "string \<Rightarrow> date \<Rightarrow> insert_user \<Rightarrow> MemStorage \<Rightarrow> user \<times> MemStorage" where
  "createUser hashedPassword now userData s =
     (let i = userId s;
          user = \<lparr>u_id = i, u_password = hashedPassword, u_email = iu_email userData,
                  u_firstName = iu_firstName userData, u_lastName = iu_lastName userData,
                  u_profileImage = iu_profileImage userData, u_isVerified = False,
                  u_verificationStatus =
                    \<lparr>idVerified = False, phoneVerified = False, addressVerified = False\<rparr>,
                  u_createdAt = now, u_rating = Finite 0, u_reviewCount = 0\<rparr>
      in (user, s\<lparr>userId := i + 1, users := map_set (users s) i user\<rparr>))"

definition spread_verification :: "verification_status \<Rightarrow> verification_partial \<Rightarrow> verification_status" where
  "spread_verification v d =
     \<lparr>idVerified = spread (idVerified v) (vp_idVerified d),
      phoneVerified = spread (phoneVerified v) (vp_phoneVerified d),
      addressVerified = spread (addressVerified v) (vp_addressVerified d)\<rparr>"

definition updateUserVerification ::
  "int \<Rightarrow> verification_partial \<Rightarrow> MemStorage \<Rightarrow> (error + user) \<times> MemStorage" where
  "updateUserVerification uid verificationData s =
     (case getUser s uid of
        None \<Rightarrow> (Inl UserNotFound, s)
      | Some user \<Rightarrow>
          let updatedVerificationStatus =
                spread_verification (u_verificationStatus user) verificationData;
              isFullyVerified =
                list_all (\<lambda>status. status = True)
                  [idVerified updatedVerificationStatus,
                   phoneVerified updatedVerificationStatus,
                   addressVerified updatedVerificationStatus];
              updatedUser = user\<lparr>u_verificationStatus := updatedVerificationStatus,
                                 u_isVerified := isFullyVerified\<rparr>
          in (Inr updatedUser, s\<lparr>users := map_set (users s) uid updatedUser\<rparr>))"


subsection \<open>Trips\<close>

definition getTrip :: "MemStorage \<Rightarrow> int \<Rightarrow> trip option" where
  "getTrip s i = map_get (trips s) i"

text \<open>
  \<open>getTrips\<close>: the active trips, narrowed by each filter whose guard holds. A string
  filter is guarded by its truthiness (the empty string is falsy), the date filter by
  its presence (a \<open>Date\<close> is an object, always truthy), the weight filter by
  \<open>!== undefined\<close>.
\<close>

definition getTrips :: "MemStorage \<Rightarrow> trip_partial option \<Rightarrow> trip list" where
  "getTrips s filters =
     (let trips0 = filter (\<lambda>trip. truthy (t_isActive trip)) (map_values (trips s)) in
      case filters of
        None \<Rightarrow> trips0
      | Some f \<Rightarrow>
          let trips1 =
                (case tp_departureAirport f of
                   None \<Rightarrow> trips0
                 | Some a \<Rightarrow>
                     if a = [] then trips0
                     else filter (\<lambda>trip. str_includes (toLowerCase (t_departureAirport trip))
                                             (toLowerCase a)) trips0);
              trips2 =
                (case tp_destinationCity f of
                   None \<Rightarrow> trips1
                 | Some c \<Rightarrow>
                     if c = [] then trips1
                     else filter (\<lambda>trip. str_includes (toLowerCase (t_destinationCity trip))
                                             (toLowerCase c)) trips1);
              trips3 =
                (case tp_departureDate f of
                   None \<Rightarrow> trips2
                 | Some filterDate \<Rightarrow>
                     filter (\<lambda>trip. t_departureDate trip \<ge> filterDate) trips2);
              trips4 =
                (case tp_availableWeight f of
                   None \<Rightarrow> trips3
                 | Some w \<Rightarrow> filter (\<lambda>trip. t_availableWeight trip \<ge> w) trips3)
          in trips4)"

definition getTripsByUserId :: "MemStorage \<Rightarrow> int \<Rightarrow> trip list" where
  "getTripsByUserId s uid = filter (\<lambda>trip. t_userId trip = uid) (map_values (trips s))"

definition createTrip :: "date \<Rightarrow> insert_trip \<Rightarrow> int \<Rightarrow> MemStorage \<Rightarrow> trip \<times> MemStorage" where
  "createTrip now tripData uid s =
     (let i = tripId s;
          trip = \<lparr>t_id = i, t_userId = uid,
                  t_departureAirport = it_departureAirport tripData,
                  t_destinationCity = it_destinationCity tripData,
                  t_departureDate = it_departureDate tripData,
                  t_arrivalDate = it_arrivalDate tripData,
                  t_airline = it_airline tripData,
                  t_flightNumber = it_flightNumber tripData,
                  t_availableWeight = it_availableWeight tripData,
                  t_pricePerKg = it_pricePerKg tripData,
                  t_notes = it_notes tripData,
                  t_isActive = Some True, t_createdAt = Some now\<rparr>
      in (trip, s\<lparr>tripId := i + 1, trips := map_set (trips s) i trip\<rparr>))"

definition spread_trip :: "trip \<Rightarrow> trip_partial \<Rightarrow> trip" where
  "spread_trip t d =
     \<lparr>t_id = spread (t_id t) (tp_id d),
      t_userId = spread (t_userId t) (tp_userId d),
      t_departureAirport = spread (t_departureAirport t) (tp_departureAirport d),
      t_destinationCity = spread (t_destinationCity t) (tp_destinationCity d),
      t_departureDate = spread (t_departureDate t) (tp_departureDate d),
      t_arrivalDate = spread (t_arrivalDate t) (tp_arrivalDate d),
      t_airline = spread (t_airline t) (tp_airline d),
      t_flightNumber = spread (t_flightNumber t) (tp_flightNumber d),
      t_availableWeight = spread (t_availableWeight t) (tp_availableWeight d),
      t_pricePerKg = spread (t_pricePerKg t) (tp_pricePerKg d),
      t_notes = spread (t_notes t) (tp_notes d),
      t_isActive = spread (t_isActive t) (tp_isActive d),
      t_createdAt = spread (t_createdAt t) (tp_createdAt d)\<rparr>"

definition updateTrip :: "int \<Rightarrow> trip_partial \<Rightarrow> MemStorage \<Rightarrow> trip option \<times> MemStorage" where
  "updateTrip i tripData s =
     (case getTrip s i of
        None \<Rightarrow> (None, s)
      | Some trip \<Rightarrow>
          let updatedTrip = spread_trip trip tripData
          in (Some updatedTrip, s\<lparr>trips := map_set (trips s) i updatedTrip\<rparr>))"

subsection \<open>Packages\<close>

definition getPackage :: "MemStorage \<Rightarrow> int \<Rightarrow> package option" where
  "getPackage s i = map_get (packages s) i"

text \<open>
  \<open>getPackages\<close>: as \<open>getTrips\<close>; the package type is compared with \<open>===\<close>, the weight
  filter is an upper bound, and a package without a deadline passes the deadline filter.
\<close>

definition getPackages :: "MemStorage \<Rightarrow> package_partial option \<Rightarrow> package list" where
  "getPackages s filters =
     (let packages0 = filter (\<lambda>pkg. truthy (p_isActive pkg)) (map_values (packages s)) in
      case filters of
        None \<Rightarrow> packages0
      | Some f \<Rightarrow>
          let packages1 =
                (case pp_senderCity f of
                   None \<Rightarrow> packages0
                 | Some c \<Rightarrow>
                     if c = [] then packages0
                     else filter (\<lambda>pkg. str_includes (toLowerCase (p_senderCity pkg))
                                            (toLowerCase c)) packages0);
              packages2 =
                (case pp_receiverCity f of
                   None \<Rightarrow> packages1
                 | Some c \<Rightarrow>
                     if c = [] then packages1
                     else filter (\<lambda>pkg. str_includes (toLowerCase (p_receiverCity pkg))
                                            (toLowerCase c)) packages1);
              packages3 =
                (case pp_packageType f of
                   None \<Rightarrow> packages2
                 | Some ty \<Rightarrow>
                     if ty = [] then packages2
                     else filter (\<lambda>pkg. p_packageType pkg = ty) packages2);
              packages4 =
                (case pp_weight f of
                   None \<Rightarrow> packages3
                 | Some w \<Rightarrow> filter (\<lambda>pkg. p_weight pkg \<le> w) packages3);
              packages5 =
                (case pp_deliveryDeadline f of
                   Some (Some filterDate) \<Rightarrow>
                     filter (\<lambda>pkg. case p_deliveryDeadline pkg of
                                     None \<Rightarrow> True
                                   | Some packageDate \<Rightarrow> packageDate \<ge> filterDate) packages4
                 | _ \<Rightarrow> packages4)
          in packages5)"

definition getPackagesByUserId :: "MemStorage \<Rightarrow> int \<Rightarrow> package list" where
  "getPackagesByUserId s uid = filter (\<lambda>pkg. p_userId pkg = uid) (map_values (packages s))"

definition createPackage ::
  "date \<Rightarrow> insert_package \<Rightarrow> int \<Rightarrow> MemStorage \<Rightarrow> package \<times> MemStorage" where
  "createPackage now packageData uid s =
     (let i = packageId s;
          pkg = \<lparr>p_id = i, p_userId = uid,
                 p_senderCity = ip_senderCity packageData,
                 p_receiverCity = ip_receiverCity packageData,
                 p_packageType = ip_packageType packageData,
                 p_weight = ip_weight packageData,
                 p_dimensions = ip_dimensions packageData,
                 p_deliveryDeadline = ip_deliveryDeadline packageData,
                 p_offeredPayment = ip_offeredPayment packageData,
                 p_description = ip_description packageData,
                 p_status = Some ''pending'', p_isActive = Some True,
                 p_createdAt = Some now\<rparr>
      in (pkg, s\<lparr>packageId := i + 1, packages := map_set (packages s) i pkg\<rparr>))"

definition spread_package :: "package \<Rightarrow> package_partial \<Rightarrow> package" where
  "spread_package p d =
     \<lparr>p_id = spread (p_id p) (pp_id d),
      p_userId = spread (p_userId p) (pp_userId d),
      p_senderCity = spread (p_senderCity p) (pp_senderCity d),
      p_receiverCity = spread (p_receiverCity p) (pp_receiverCity d),
      p_packageType = spread (p_packageType p) (pp_packageType d),
      p_weight = spread (p_weight p) (pp_weight d),
      p_dimensions = spread (p_dimensions p) (pp_dimensions d),
      p_deliveryDeadline = spread (p_deliveryDeadline p) (pp_deliveryDeadline d),
      p_offeredPayment = spread (p_offeredPayment p) (pp_offeredPayment d),
      p_description = spread (p_description p) (pp_description d),
      p_status = spread (p_status p) (pp_status d),
      p_isActive = spread (p_isActive p) (pp_isActive d),
      p_createdAt = spread (p_createdAt p) (pp_createdAt d)\<rparr>"

definition updatePackage ::
  "int \<Rightarrow> package_partial \<Rightarrow> MemStorage \<Rightarrow> package option \<times> MemStorage" where
  "updatePackage i packageData s =
     (case getPackage s i of
        None \<Rightarrow> (None, s)
      | Some pkg \<Rightarrow>
          let updatedPackage = spread_package pkg packageData
          in (Some updatedPackage, s\<lparr>packages := map_set (packages s) i updatedPackage\<rparr>))"

text \<open>The object literal \<open>{ status: v }\<close> as a \<open>Partial<Package>\<close>.\<close>

definition status_only :: "string \<Rightarrow> package_partial" where
  "status_only v =
     \<lparr>pp_id = None, pp_userId = None, pp_senderCity = None, pp_receiverCity = None,
      pp_packageType = None, pp_weight = None, pp_dimensions = None,
      pp_deliveryDeadline = None, pp_offeredPayment = None, pp_description = None,
      pp_status = Some (Some v), pp_isActive = None, pp_createdAt = None\<rparr>"


subsection \<open>Deliveries\<close>

definition getDelivery :: "MemStorage \<Rightarrow> int \<Rightarrow> delivery option" where
  "getDelivery s i = map_get (deliveries s) i"

definition getDeliveriesByTripId :: "MemStorage \<Rightarrow> int \<Rightarrow> delivery list" where
  "getDeliveriesByTripId s i =
     filter (\<lambda>delivery. d_tripId delivery = i) (map_values (deliveries s))"

definition getDeliveriesByPackageId :: "MemStorage \<Rightarrow> int \<Rightarrow> delivery list" where
  "getDeliveriesByPackageId s i =
     filter (\<lambda>delivery. d_packageId delivery = i) (map_values (deliveries s))"

definition getDeliveriesByUserId :: "MemStorage \<Rightarrow> int \<Rightarrow> delivery_role \<Rightarrow> delivery list" where
  "getDeliveriesByUserId s uid role =
     (if role = Traveler
      then filter (\<lambda>delivery. d_travelerId delivery = uid) (map_values (deliveries s))
      else filter (\<lambda>delivery. d_senderId delivery = uid) (map_values (deliveries s)))"

definition createDelivery :: "date \<Rightarrow> insert_delivery \<Rightarrow> MemStorage \<Rightarrow> delivery \<times> MemStorage" where
  "createDelivery now deliveryData s =
     (let i = deliveryId s;
          delivery = \<lparr>d_id = i, d_tripId = idl_tripId deliveryData,
                      d_packageId = idl_packageId deliveryData,
                      d_travelerId = idl_travelerId deliveryData,
                      d_senderId = idl_senderId deliveryData,
                      d_status = ''pending'', d_paymentStatus = ''pending'',
                      d_createdAt = now, d_updatedAt = now\<rparr>;
          s1 = s\<lparr>deliveryId := i + 1, deliveries := map_set (deliveries s) i delivery\<rparr>;
          s2 = (case getPackage s1 (idl_packageId deliveryData) of
                  None \<Rightarrow> s1
                | Some pkg \<Rightarrow> snd (updatePackage (p_id pkg) (status_only ''matched'') s1))
      in (delivery, s2))"

definition updateDeliveryStatus ::
  "date \<Rightarrow> int \<Rightarrow> string \<Rightarrow> MemStorage \<Rightarrow> delivery option \<times> MemStorage" where
  "updateDeliveryStatus now i status s =
     (case getDelivery s i of
        None \<Rightarrow> (None, s)
      | Some delivery \<Rightarrow>
          let updatedDelivery = delivery\<lparr>d_status := status, d_updatedAt := now\<rparr>;
              s1 = s\<lparr>deliveries := map_set (deliveries s) i updatedDelivery\<rparr>;
              s2 = (if status = ''delivered''
                    then (case getPackage s1 (d_packageId delivery) of
                            None \<Rightarrow> s1
                          | Some pkg \<Rightarrow>
                              snd (updatePackage (p_id pkg) (status_only ''delivered'') s1))
                    else s1)
          in (Some updatedDelivery, s2))"

definition updatePaymentStatus ::
  "date \<Rightarrow> int \<Rightarrow> string \<Rightarrow> MemStorage \<Rightarrow> delivery option \<times> MemStorage" where
  "updatePaymentStatus now i paymentStatus s =
     (case getDelivery s i of
        None \<Rightarrow> (None, s)
      | Some delivery \<Rightarrow>
          let updatedDelivery =
                delivery\<lparr>d_paymentStatus := paymentStatus, d_updatedAt := now\<rparr>
          in (Some updatedDelivery,
              s\<lparr>deliveries := map_set (deliveries s) i updatedDelivery\<rparr>))"

subsection \<open>Messages\<close>

text \<open>
  \<open>Array.prototype.sort\<close> is stable, and the comparators order by the difference of
  the time values: \<open>sort_key\<close> (insertion sort, stable) on the time value, negated for the
  descending order.
\<close>

definition getMessage :: "MemStorage \<Rightarrow> int \<Rightarrow> message option" where
  "getMessage s i = map_get (messages s) i"

definition getMessagesBetweenUsers :: "MemStorage \<Rightarrow> int \<Rightarrow> int \<Rightarrow> message list" where
  "getMessagesBetweenUsers s userId1 userId2 =
     sort_key m_createdAt
       (filter (\<lambda>message.
                  (m_senderId message = userId1 \<and> m_receiverId message = userId2) \<or>
                  (m_senderId message = userId2 \<and> m_receiverId message = userId1))
          (map_values (messages s)))"

definition getMessagesByUserId :: "MemStorage \<Rightarrow> int \<Rightarrow> message list" where
  "getMessagesByUserId s uid =
     sort_key (\<lambda>message. - m_createdAt message)
       (filter (\<lambda>message. m_senderId message = uid \<or> m_receiverId message = uid)
          (map_values (messages s)))"

definition createMessage :: "date \<Rightarrow> insert_message \<Rightarrow> MemStorage \<Rightarrow> message \<times> MemStorage" where
  "createMessage now messageData s =
     (let i = messageId s;
          message = \<lparr>m_id = i, m_senderId = im_senderId messageData,
                     m_receiverId = im_receiverId messageData,
                     m_content = im_content messageData,
                     m_isRead = False, m_createdAt = now\<rparr>
      in (message, s\<lparr>messageId := i + 1, messages := map_set (messages s) i message\<rparr>))"

definition markMessageAsRead :: "int \<Rightarrow> MemStorage \<Rightarrow> message option \<times> MemStorage" where
  "markMessageAsRead i s =
     (case getMessage s i of
        None \<Rightarrow> (None, s)
      | Some message \<Rightarrow>
          let updatedMessage = message\<lparr>m_isRead := True\<rparr>
          in (Some updatedMessage, s\<lparr>messages := map_set (messages s) i updatedMessage\<rparr>))"

subsection \<open>Reviews\<close>

definition getReview :: "MemStorage \<Rightarrow> int \<Rightarrow> review option" where
  "getReview s i = map_get (reviews s) i"

definition getReviewsByUserId :: "MemStorage \<Rightarrow> int \<Rightarrow> review_role \<Rightarrow> review list" where
  "getReviewsByUserId s uid role =
     (if role = Reviewer
      then filter (\<lambda>review. r_reviewerId review = uid) (map_values (reviews s))
      else filter (\<lambda>review. r_revieweeId review = uid) (map_values (reviews s)))"

definition getReviewsByDeliveryId :: "MemStorage \<Rightarrow> int \<Rightarrow> review list" where
  "getReviewsByDeliveryId s i =
     filter (\<lambda>review. r_deliveryId review = Some i) (map_values (reviews s))"

text \<open>
  \<open>createReview\<close>: the sum of the ratings is \<open>reduce\<close> from 0, a left fold of the
  addition of numbers, and the new rating is the quotient of numbers of the sum by the
  number of reviews. An integer rating is a number as it is: below \<open>2 ^ 53\<close> in absolute
  value every integer is a double, and beyond that a payload holds only integers that are.
\<close>

definition createReview :: "date \<Rightarrow> insert_review \<Rightarrow> MemStorage \<Rightarrow> review \<times> MemStorage" where
  "createReview now reviewData s =
     (let i = reviewId s;
          review = \<lparr>r_id = i, r_reviewerId = ir_reviewerId reviewData,
                    r_revieweeId = ir_revieweeId reviewData,
                    r_deliveryId = ir_deliveryId reviewData,
                    r_rating = ir_rating reviewData,
                    r_comment = ir_comment reviewData, r_createdAt = now\<rparr>;
          s1 = s\<lparr>reviewId := i + 1, reviews := map_set (reviews s) i review\<rparr>;
          s2 = (case getUser s1 (ir_revieweeId reviewData) of
                  None \<Rightarrow> s1
                | Some user \<Rightarrow>
                    let userReviews = getReviewsByUserId s1 (ir_revieweeId reviewData) Reviewee;
                        totalRating =
                          foldl (\<lambda>sum review. js_add sum (Finite (of_int (r_rating review))))
                            (Finite 0) userReviews;
                        newRating = js_div totalRating (Finite (of_nat (length userReviews)));
                        updatedUser = user\<lparr>u_rating := newRating,
                                           u_reviewCount := length userReviews\<rparr>
                    in s1\<lparr>users := map_set (users s1) (u_id user) updatedUser\<rparr>)
      in (review, s2))"


subsection \<open>Sequences of operations\<close>

text \<open>
  The mutating operations of the storage interface as values, and the store after one of
  them and after a list of them. \<open>updateUserVerification\<close> on an unknown user throws and
  leaves the store as it was.
\<close>

datatype operation =
    CreateUser string date insert_user
  | UpdateUserVerification int verification_partial
  | CreateTrip date insert_trip int
  | UpdateTrip int trip_partial
  | CreatePackage date insert_package int
  | UpdatePackage int package_partial
  | CreateDelivery date insert_delivery
  | UpdateDeliveryStatus date int string
  | UpdatePaymentStatus date int string
  | CreateMessage date insert_message
  | MarkMessageAsRead int
  | CreateReview date insert_review

fun apply_op :: "operation \<Rightarrow> MemStorage \<Rightarrow> MemStorage" where
  "apply_op (CreateUser h now d) s = snd (createUser h now d s)"
| "apply_op (UpdateUserVerification uid d) s = snd (updateUserVerification uid d s)"
| "apply_op (CreateTrip now d uid) s = snd (createTrip now d uid s)"
| "apply_op (UpdateTrip i d) s = snd (updateTrip i d s)"
| "apply_op (CreatePackage now d uid) s = snd (createPackage now d uid s)"
| "apply_op (UpdatePackage i d) s = snd (updatePackage i d s)"
| "apply_op (CreateDelivery now d) s = snd (createDelivery now d s)"
| "apply_op (UpdateDeliveryStatus now i st) s = snd (updateDeliveryStatus now i st s)"
| "apply_op (UpdatePaymentStatus now i st) s = snd (updatePaymentStatus now i st s)"
| "apply_op (CreateMessage now d) s = snd (createMessage now d s)"
| "apply_op (MarkMessageAsRead i) s = snd (markMessageAsRead i s)"
| "apply_op (CreateReview now d) s = snd (createReview now d s)"

fun run :: "operation list \<Rightarrow> MemStorage \<Rightarrow> MemStorage" where
  "run [] s = s"
| "run (op # ops) s = run ops (apply_op op s)"


section \<open>A sample store\<close>

text \<open>
  Two users, a trip of the first, a package of the second, a delivery that links them and
  two messages: the store the concrete instances below are evaluated on.
\<close>

definition sample_user1 :: user where
  "sample_user1 =
     \<lparr>u_id = 1, u_password = ''h1'', u_email = ''abebe@example.com'', u_firstName = ''Abebe'',
      u_lastName = ''Bikila'', u_profileImage = None, u_isVerified = False,
      u_verificationStatus =
        \<lparr>idVerified = False, phoneVerified = False, addressVerified = False\<rparr>,
      u_createdAt = 1000, u_rating = Finite 0, u_reviewCount = 0\<rparr>"

definition sample_user2 :: user where
  "sample_user2 =
     \<lparr>u_id = 2, u_password = ''h2'', u_email = ''sara@example.com'', u_firstName = ''Sara'',
      u_lastName = ''Tesfaye'', u_profileImage = None, u_isVerified = False,
      u_verificationStatus =
        \<lparr>idVerified = False, phoneVerified = False, addressVerified = False\<rparr>,
      u_createdAt = 2000, u_rating = Finite 0, u_reviewCount = 0\<rparr>"

definition sample_trip :: trip where
  "sample_trip =
     \<lparr>t_id = 1, t_userId = 1, t_departureAirport = ''JFK'',
      t_destinationCity = ''Addis Ababa'', t_departureDate = 50000, t_arrivalDate = 60000,
      t_airline = None, t_flightNumber = None, t_availableWeight = 10, t_pricePerKg = 15,
      t_notes = None, t_isActive = Some True, t_createdAt = Some 3000\<rparr>"

definition sample_package :: package where
  "sample_package =
     \<lparr>p_id = 1, p_userId = 2, p_senderCity = ''New York'', p_receiverCity = ''Addis Ababa'',
      p_packageType = ''documents'', p_weight = 5, p_dimensions = None,
      p_deliveryDeadline = None, p_offeredPayment = 100, p_description = None,
      p_status = Some ''pending'', p_isActive = Some True, p_createdAt = Some 4000\<rparr>"

definition sample_delivery :: delivery where
  "sample_delivery =
     \<lparr>d_id = 1, d_tripId = 1, d_packageId = 1, d_travelerId = 1, d_senderId = 2,
      d_status = ''pending'', d_paymentStatus = ''pending'',
      d_createdAt = 5000, d_updatedAt = 5000\<rparr>"

definition sample_message1 :: message where
  "sample_message1 =
     \<lparr>m_id = 1, m_senderId = 2, m_receiverId = 1, m_content = ''Hello'',
      m_isRead = False, m_createdAt = 6000\<rparr>"

definition sample_message2 :: message where
  "sample_message2 =
     \<lparr>m_id = 2, m_senderId = 1, m_receiverId = 2, m_content = ''Hi'',
      m_isRead = False, m_createdAt = 7000\<rparr>"

definition sample_store :: MemStorage where
  "sample_store =
     \<lparr>users = [(1, sample_user1), (2, sample_user2)], trips = [(1, sample_trip)],
      packages = [(1, sample_package \<lparr>p_status := Some ''matched''\<rparr>)],
      deliveries = [(1, sample_delivery)],
      messages = [(1, sample_message1), (2, sample_message2)], reviews = [],
      userId = 3, tripId = 2, packageId = 2, deliveryId = 2, messageId = 3, reviewId = 1\<rparr>"

definition sample_insert_delivery :: insert_delivery where
  "sample_insert_delivery =
     \<lparr>idl_tripId = 1, idl_packageId = 1, idl_travelerId = 1, idl_senderId = 2\<rparr>"

text \<open>The operations that build the sample store from the empty one.\<close>

definition sample_ops :: "operation list" where
  "sample_ops =
     [CreateUser ''h1'' 1000
        \<lparr>iu_password = ''secret1'', iu_email = ''abebe@example.com'', iu_firstName = ''Abebe'',
         iu_lastName = ''Bikila'', iu_profileImage = None\<rparr>,
      CreateUser ''h2'' 2000
        \<lparr>iu_password = ''secret2'', iu_email = ''sara@example.com'', iu_firstName = ''Sara'',
         iu_lastName = ''Tesfaye'', iu_profileImage = None\<rparr>,
      CreateTrip 3000
        \<lparr>it_departureAirport = ''JFK'', it_destinationCity = ''Addis Ababa'',
         it_departureDate = 50000, it_arrivalDate = 60000, it_airline = None,
         it_flightNumber = None, it_availableWeight = 10, it_pricePerKg = 15,
         it_notes = None\<rparr> 1,
      CreatePackage 4000
        \<lparr>ip_senderCity = ''New York'', ip_receiverCity = ''Addis Ababa'',
         ip_packageType = ''documents'', ip_weight = 5, ip_dimensions = None,
         ip_deliveryDeadline = None, ip_offeredPayment = 100, ip_description = None\<rparr> 2,
      CreateDelivery 5000 sample_insert_delivery,
      CreateMessage 6000 \<lparr>im_senderId = 2, im_receiverId = 1, im_content = ''Hello''\<rparr>,
      CreateMessage 7000 \<lparr>im_senderId = 1, im_receiverId = 2, im_content = ''Hi''\<rparr>]"

section \<open>The database-backed store: the list queries\<close>

text \<open>
  \<open>PgStorage.getTrips\<close> and \<open>PgStorage.getPackages\<close> build a \<open>WHERE\<close> clause, a
  conjunction of one condition per filter whose guard holds, and send it to the database
  with the filter values as parameters. The rows of a table are the records above (a
  \<open>NOT NULL\<close> column has its plain type, a nullable one is an \<open>option\<close>). What the
  database does with the clause is its SQL meaning: a condition is true, false or unknown
  (\<open>None\<close>), a comparison with \<open>NULL\<close> is unknown, \<open>AND\<close> is the three-valued
  conjunction, and \<open>WHERE\<close> keeps the rows whose condition is true. In a \<open>LIKE\<close> pattern
  \<open>%\<close> stands for any run of characters, \<open>_\<close> for any one character, and a backslash
  takes the character after it literally. \<open>LOWER\<close> is \<open>toLowerCase\<close> on ASCII.
  Only these two queries of \<open>PgStorage\<close> are modelled: each of its other operations is
  one or two SQL statements whose effect is the database's own.
\<close>

type_synonym sql_bool = "bool option"

definition sql_and :: "sql_bool \<Rightarrow> sql_bool \<Rightarrow> sql_bool" where
  "sql_and a b =
     (if a = Some False \<or> b = Some False then Some False
      else if a = None \<or> b = None then None
      else Some True)"

definition sql_eq :: "'a option \<Rightarrow> 'a option \<Rightarrow> sql_bool" where
  "sql_eq a b = (case a of None \<Rightarrow> None | Some x \<Rightarrow> (case b of None \<Rightarrow> None | Some y \<Rightarrow> Some (x = y)))"

definition sql_ge :: "'a::linorder option \<Rightarrow> 'a option \<Rightarrow> sql_bool" where
  "sql_ge a b = (case a of None \<Rightarrow> None | Some x \<Rightarrow> (case b of None \<Rightarrow> None | Some y \<Rightarrow> Some (x \<ge> y)))"

definition sql_le :: "'a::linorder option \<Rightarrow> 'a option \<Rightarrow> sql_bool" where
  "sql_le a b = (case a of None \<Rightarrow> None | Some x \<Rightarrow> (case b of None \<Rightarrow> None | Some y \<Rightarrow> Some (x \<le> y)))"

text \<open>
  \<open>like_match s p\<close>: the string \<open>s\<close> matches the pattern \<open>p\<close>. A pattern that ends in a
  lone backslash is an error in the database; the patterns built below end in \<open>%\<close>, so
  that case does not arise, and the function answers \<open>False\<close> there.
\<close>

fun like_match :: "string \<Rightarrow> string \<Rightarrow> bool" where
  "like_match s [] = (s = [])"
| "like_match s (p # ps) =
     (if p = CHR ''%'' then
        (like_match s ps \<or> (case s of [] \<Rightarrow> False | c # cs \<Rightarrow> like_match cs (p # ps)))
      else if p = CHR ''_'' then
        (case s of [] \<Rightarrow> False | c # cs \<Rightarrow> like_match cs ps)
      else if p = CHR 0x5C then
        (case ps of
           [] \<Rightarrow> False
         | q # qs \<Rightarrow> (case s of [] \<Rightarrow> False | c # cs \<Rightarrow> c = q \<and> like_match cs qs))
      else (case s of [] \<Rightarrow> False | c # cs \<Rightarrow> c = p \<and> like_match cs ps))"

text \<open>A string without a character that \<open>LIKE\<close> reads specially.\<close>

definition like_plain :: "string \<Rightarrow> bool" where
  "like_plain s = list_all (\<lambda>c. c \<noteq> CHR ''%'' \<and> c \<noteq> CHR ''_'' \<and> c \<noteq> CHR 0x5C) s"

definition sql_like :: "string option \<Rightarrow> string option \<Rightarrow> sql_bool" where
  "sql_like a b =
     (case a of None \<Rightarrow> None | Some s \<Rightarrow> (case b of None \<Rightarrow> None | Some p \<Rightarrow> Some (like_match s p)))"

text \<open>\<open>clauses.join(' AND ')\<close> evaluated on a row, and the rows a \<open>WHERE\<close> keeps.\<close>

definition sql_all :: "('r \<Rightarrow> sql_bool) list \<Rightarrow> 'r \<Rightarrow> sql_bool" where
  "sql_all clauses r = foldr (\<lambda>c acc. sql_and (c r) acc) clauses (Some True)"

definition sql_where :: "('r \<Rightarrow> sql_bool) list \<Rightarrow> 'r list \<Rightarrow> 'r list" where
  "sql_where clauses rows = filter (\<lambda>r. sql_all clauses r = Some True) rows"

text \<open>The empty filter objects, the default \<open>filters = {}\<close> of the two queries.\<close>

definition no_trip_filters :: trip_partial where
  "no_trip_filters =
     \<lparr>tp_id = None, tp_userId = None, tp_departureAirport = None, tp_destinationCity = None,
      tp_departureDate = None, tp_arrivalDate = None, tp_airline = None,
      tp_flightNumber = None, tp_availableWeight = None, tp_pricePerKg = None,
      tp_notes = None, tp_isActive = None, tp_createdAt = None\<rparr>"

definition no_package_filters :: package_partial where
  "no_package_filters =
     \<lparr>pp_id = None, pp_userId = None, pp_senderCity = None, pp_receiverCity = None,
      pp_packageType = None, pp_weight = None, pp_dimensions = None,
      pp_deliveryDeadline = None, pp_offeredPayment = None, pp_description = None,
      pp_status = None, pp_isActive = None, pp_createdAt = None\<rparr>"

definition Pg_getTrips :: "trip list \<Rightarrow> trip_partial option \<Rightarrow> trip list" where
  "Pg_getTrips rows filters0 =
     (let filters = (case filters0 of None \<Rightarrow> no_trip_filters | Some f \<Rightarrow> f);
          clauses0 = [\<lambda>r. sql_eq (t_isActive r) (Some True)];
          clauses1 =
            (case tp_departureAirport filters of
               None \<Rightarrow> clauses0
             | Some a \<Rightarrow>
                 if a = [] then clauses0
                 else clauses0 @
                   [\<lambda>r. sql_like (Some (toLowerCase (t_departureAirport r)))
                           (Some (''%'' @ toLowerCase a @ ''%''))]);
          clauses2 =
            (case tp_destinationCity filters of
               None \<Rightarrow> clauses1
             | Some c \<Rightarrow>
                 if c = [] then clauses1
                 else clauses1 @
                   [\<lambda>r. sql_like (Some (toLowerCase (t_destinationCity r)))
                           (Some (''%'' @ toLowerCase c @ ''%''))]);
          clauses3 =
            (case tp_departureDate filters of
               None \<Rightarrow> clauses2
             | Some d \<Rightarrow> clauses2 @ [\<lambda>r. sql_ge (Some (t_departureDate r)) (Some d)]);
          clauses4 =
            (case tp_availableWeight filters of
               None \<Rightarrow> clauses3
             | Some w \<Rightarrow> clauses3 @ [\<lambda>r. sql_ge (Some (t_availableWeight r)) (Some w)])
      in sql_where clauses4 rows)"

definition Pg_getPackages :: "package list \<Rightarrow> package_partial option \<Rightarrow> package list" where
  "Pg_getPackages rows filters0 =
     (let filters = (case filters0 of None \<Rightarrow> no_package_filters | Some f \<Rightarrow> f);
          clauses0 = [\<lambda>r. sql_eq (p_isActive r) (Some True)];
          clauses1 =
            (case pp_senderCity filters of
               None \<Rightarrow> clauses0
             | Some c \<Rightarrow>
                 if c = [] then clauses0
                 else clauses0 @
                   [\<lambda>r. sql_like (Some (toLowerCase (p_senderCity r)))
                           (Some (''%'' @ toLowerCase c @ ''%''))]);
          clauses2 =
            (case pp_receiverCity filters of
               None \<Rightarrow> clauses1
             | Some c \<Rightarrow>
                 if c = [] then clauses1
                 else clauses1 @
                   [\<lambda>r. sql_like (Some (toLowerCase (p_receiverCity r)))
                           (Some (''%'' @ toLowerCase c @ ''%''))]);
          clauses3 =
            (case pp_packageType filters of
               None \<Rightarrow> clauses2
             | Some ty \<Rightarrow>
                 if ty = [] then clauses2
                 else clauses2 @ [\<lambda>r. sql_eq (Some (p_packageType r)) (Some ty)]);
          clauses4 =
            (case pp_weight filters of
               None \<Rightarrow> clauses3
             | Some w \<Rightarrow> clauses3 @ [\<lambda>r. sql_le (Some (p_weight r)) (Some w)]);
          clauses5 =
            (case pp_deliveryDeadline filters of
               Some (Some d) \<Rightarrow> clauses4 @ [\<lambda>r. sql_ge (p_deliveryDeadline r) (Some d)]
             | _ \<Rightarrow> clauses4)
      in sql_where clauses5 rows)"

section \<open>The filtering contract\<close>

text \<open>
  The filtering semantics in the words of the specification: a string filter is a
  case-insensitive substring match, the date filter is "on or after", the trip weight
  filter is a minimum and the package weight filter a maximum, and a key that is not
  supplied puts no constraint on its field.
\<close>

definition ci_substring :: "string \<Rightarrow> string \<Rightarrow> bool" where
  "ci_substring needle hay = (\<exists>pre suf. toLowerCase hay = pre @ toLowerCase needle @ suf)"

definition trip_matches :: "trip_partial option \<Rightarrow> trip \<Rightarrow> bool" where
  "trip_matches filters t =
     (t_isActive t = Some True \<and>
      (case filters of
         None \<Rightarrow> True
       | Some f \<Rightarrow>
           (case tp_departureAirport f of
              None \<Rightarrow> True | Some a \<Rightarrow> ci_substring a (t_departureAirport t)) \<and>
           (case tp_destinationCity f of
              None \<Rightarrow> True | Some c \<Rightarrow> ci_substring c (t_destinationCity t)) \<and>
           (case tp_departureDate f of
              None \<Rightarrow> True | Some d \<Rightarrow> t_departureDate t \<ge> d) \<and>
           (case tp_availableWeight f of
              None \<Rightarrow> True | Some w \<Rightarrow> t_availableWeight t \<ge> w)))"

section \<open>Sample filters\<close>

definition weight_trip_filter :: trip_partial where
  "weight_trip_filter = no_trip_filters\<lparr>tp_availableWeight := Some 10\<rparr>"

definition weight_package_filter :: package_partial where
  "weight_package_filter = no_package_filters\<lparr>pp_weight := Some 5\<rparr>"

definition wildcard_trip_filter :: trip_partial where
  "wildcard_trip_filter = no_trip_filters\<lparr>tp_destinationCity := Some ''a_d''\<rparr>"

definition deadline_package_filter :: package_partial where
  "deadline_package_filter = no_package_filters\<lparr>pp_deliveryDeadline := Some (Some 70000)\<rparr>"

text \<open>A user created and then verified in two steps, and the user record that results.\<close>

definition verification_ops :: "operation list" where
  "verification_ops =
     [CreateUser ''h1'' 1000
        \<lparr>iu_password = ''secret1'', iu_email = ''abebe@example.com'', iu_firstName = ''Abebe'',
         iu_lastName = ''Bikila'', iu_profileImage = None\<rparr>,
      UpdateUserVerification 1
        \<lparr>vp_idVerified = Some True, vp_phoneVerified = Some True, vp_addressVerified = None\<rparr>,
      UpdateUserVerification 1
        \<lparr>vp_idVerified = None, vp_phoneVerified = None, vp_addressVerified = Some True\<rparr>]"

definition verified_user1 :: user where
  "verified_user1 =
     sample_user1\<lparr>u_verificationStatus :=
                     \<lparr>idVerified = True, phoneVerified = True, addressVerified = True\<rparr>,
                   u_isVerified := True\<rparr>"



text \<open>
  The object \<open>{ id: 5 }\<close> as a \<open>Partial<Package>\<close>, the operations that create the
  sample package (the first four of \<open>sample_ops\<close>) or the whole sample store and then
  update the package with that object, and the stores that result: the package is still
  under key 1, its \<open>id\<close> field is 5.
\<close>

definition renumber_patch :: package_partial where
  "renumber_patch = no_package_filters\<lparr>pp_id := Some 5\<rparr>"

definition renumber_pending_ops :: "operation list" where
  "renumber_pending_ops = take 4 sample_ops @ [UpdatePackage 1 renumber_patch]"

definition renumber_matched_ops :: "operation list" where
  "renumber_matched_ops = sample_ops @ [UpdatePackage 1 renumber_patch]"

definition renumbered_pending_store :: MemStorage where
  "renumbered_pending_store =
     \<lparr>users = [(1, sample_user1), (2, sample_user2)], trips = [(1, sample_trip)],
      packages = [(1, sample_package\<lparr>p_id := 5\<rparr>)],
      deliveries = [], messages = [], reviews = [],
      userId = 3, tripId = 2, packageId = 2, deliveryId = 1, messageId = 1, reviewId = 1\<rparr>"

definition renumbered_matched_store :: MemStorage where
  "renumbered_matched_store =
     sample_store\<lparr>packages := [(1, sample_package\<lparr>p_id := 5, p_status := Some ''matched''\<rparr>)]\<rparr>"

section \<open>Invariants\<close>

text \<open>
  The overall flag of a user agrees with the three verification flags, and a store in
  which every user does.
\<close>

definition verified_agrees :: "user \<Rightarrow> bool" where
  "verified_agrees u =
     (u_isVerified u =
        (idVerified (u_verificationStatus u) \<and> phoneVerified (u_verificationStatus u) \<and>
         addressVerified (u_verificationStatus u)))"

definition users_verified_agree :: "MemStorage \<Rightarrow> bool" where
  "users_verified_agree s = list_all verified_agrees (map_values (users s))"


section \<open>Properties of the in-memory store\<close>

subsection \<open>Maps\<close>

lemma map_get_set_same: "map_get (map_set m k v) k = Some v"
  by (simp add: map_get_def map_set_def update_conv')

lemma map_get_set_other: "k' \<noteq> k \<Longrightarrow> map_get (map_set m k v) k' = map_get m k'"
  by (simp add: map_get_def map_set_def update_conv')

lemma map_get_None: "k \<notin> fst ` set m \<Longrightarrow> map_get m k = None"
  by (simp add: map_get_def map_of_eq_None_iff)

lemma map_set_distinct: "distinct (map fst m) \<Longrightarrow> distinct (map fst (map_set m k v))"
  by (simp add: map_set_def distinct_update)

text \<open>The sample store is the store after \<open>sample_ops\<close>.\<close>

lemma sample_store_run: "run sample_ops MemStorage_new = sample_store"
  by (simp add: sample_ops_def MemStorage_new_def sample_store_def createUser_def
      createTrip_def createPackage_def createDelivery_def createMessage_def updatePackage_def
      getPackage_def map_get_def map_set_def Let_def sample_user1_def sample_user2_def
      sample_trip_def sample_package_def sample_delivery_def sample_message1_def
      sample_message2_def sample_insert_delivery_def spread_package_def status_only_def
      spread_def)

subsection \<open>Deliveries and the linked package\<close>

lemma updatePackage_deliveries: "deliveries (snd (updatePackage i d s)) = deliveries s"
  by (simp add: updatePackage_def Let_def split: option.splits)

lemma updatePackage_get_same:
  "getPackage s i = Some P \<Longrightarrow>
   getPackage (snd (updatePackage i d s)) i = Some (spread_package P d)"
  by (simp add: updatePackage_def getPackage_def Let_def map_get_set_same)

lemma spread_package_status_only:
  "spread_package P (status_only v) = P\<lparr>p_status := Some v\<rparr>"
  by (simp add: spread_package_def status_only_def spread_def)

lemma sample_getPackage:
  "getPackage sample_store 1 = Some (sample_package\<lparr>p_status := Some ''matched''\<rparr>)"
  by (simp add: getPackage_def map_get_def sample_store_def)

lemma sample_getDelivery: "getDelivery sample_store 1 = Some sample_delivery"
  by (simp add: getDelivery_def map_get_def sample_store_def)

text \<open>
  Where the store returns a package under the value of its own \<open>id\<close> field,
  \<open>createDelivery\<close> with that id leaves it with status \<open>"matched"\<close>, whatever its status
  was, and \<open>updateDeliveryStatus\<close> of a delivery linked to it sets its status to
  \<open>"delivered"\<close> exactly when the status string is \<open>"delivered"\<close>, leaving the package map
  as it was otherwise.
\<close>

lemma createDelivery_own_id:
  assumes "getPackage s (p_id P) = Some P" and "idl_packageId deliveryData = p_id P"
  shows "getPackage (snd (createDelivery now deliveryData s)) (p_id P) =
           Some (P\<lparr>p_status := Some ''matched''\<rparr>)"
proof -
  define s1 where "s1 = s\<lparr>deliveryId := deliveryId s + 1,
      deliveries := map_set (deliveries s) (deliveryId s)
        \<lparr>d_id = deliveryId s, d_tripId = idl_tripId deliveryData,
         d_packageId = idl_packageId deliveryData,
         d_travelerId = idl_travelerId deliveryData,
         d_senderId = idl_senderId deliveryData,
         d_status = ''pending'', d_paymentStatus = ''pending'',
         d_createdAt = now, d_updatedAt = now\<rparr>\<rparr>"
  have g: "getPackage s1 (p_id P) = Some P"
    using assms(1) by (simp add: getPackage_def s1_def)
  have "snd (createDelivery now deliveryData s) =
          snd (updatePackage (p_id P) (status_only ''matched'') s1)"
    using g assms(2) by (simp add: createDelivery_def Let_def s1_def)
  then show ?thesis
    using updatePackage_get_same [OF g, of "status_only ''matched''"]
    by (simp add: spread_package_status_only)
qed

lemma updateDeliveryStatus_own_id:
  assumes "getDelivery s (d_id D) = Some D"
      and "getPackage s (d_packageId D) = Some P"
      and "p_id P = d_packageId D"
  shows "getPackage (snd (updateDeliveryStatus now (d_id D) status s)) (p_id P) =
           Some (if status = ''delivered'' then P\<lparr>p_status := Some ''delivered''\<rparr> else P) \<and>
         (status \<noteq> ''delivered'' \<longrightarrow>
            packages (snd (updateDeliveryStatus now (d_id D) status s)) = packages s)"
proof -
  define s1 where
    "s1 = s\<lparr>deliveries := map_set (deliveries s) (d_id D) (D\<lparr>d_status := status, d_updatedAt := now\<rparr>)\<rparr>"
  have g: "getPackage s1 (p_id P) = Some P"
    using assms(2,3) by (simp add: getPackage_def s1_def)
  show ?thesis
  proof (cases "status = ''delivered''")
    case True
    have "snd (updateDeliveryStatus now (d_id D) status s) =
            snd (updatePackage (p_id P) (status_only ''delivered'') s1)"
      using assms(1,3) g True by (simp add: updateDeliveryStatus_def Let_def s1_def)
    then show ?thesis
      using updatePackage_get_same [OF g, of "status_only ''delivered''"] True
      by (simp add: spread_package_status_only)
  next
    case False
    have "snd (updateDeliveryStatus now (d_id D) status s) = s1"
      using assms(1) False by (simp add: updateDeliveryStatus_def Let_def s1_def)
    then show ?thesis
      using g False by (simp add: s1_def)
  qed
qed

text \<open>
  \<open>updatePackage\<close> spreads the update over the stored package and writes it back under
  the key it was asked for, so an update that supplies \<open>id\<close> leaves a package whose
  \<open>id\<close> field is not its key. Both sample stores below are reached that way.
\<close>

lemma renumbered_pending_run: "run renumber_pending_ops MemStorage_new = renumbered_pending_store"
  by (simp add: renumber_pending_ops_def sample_ops_def MemStorage_new_def
      renumbered_pending_store_def createUser_def createTrip_def createPackage_def
      updatePackage_def getPackage_def map_get_def map_set_def Let_def sample_user1_def
      sample_user2_def sample_trip_def sample_package_def spread_package_def renumber_patch_def
      no_package_filters_def spread_def)

lemma renumbered_matched_run: "run renumber_matched_ops MemStorage_new = renumbered_matched_store"
proof -
  have "run renumber_matched_ops MemStorage_new =
          apply_op (UpdatePackage 1 renumber_patch) (run sample_ops MemStorage_new)"
    by (simp add: renumber_matched_ops_def sample_ops_def)
  then show ?thesis
    by (simp add: sample_store_run sample_store_def renumbered_matched_store_def
        updatePackage_def getPackage_def map_get_def map_set_def Let_def sample_package_def
        spread_package_def renumber_patch_def no_package_filters_def spread_def)
qed

text \<open>
  Claim C1. \<open>createDelivery\<close> is to leave the package named by the payload's
  \<open>packageId\<close> with status \<open>"matched"\<close>, for every existing package. It looks the package
  up under \<open>packageId\<close> and then updates the package under the value of the \<open>id\<close> field of
  what it found. In the store where the package under key 1 has the \<open>id\<close> field 5,
  \<open>createDelivery\<close> with \<open>packageId = 1\<close> leaves that package pending; under key 5 there
  is no package, before or after a \<open>createDelivery\<close> with \<open>packageId = 5\<close>.
\<close>

theorem createDelivery_renumbered:
  "getPackage renumbered_pending_store 1 = Some (sample_package\<lparr>p_id := 5\<rparr>) \<and>
   p_status (sample_package\<lparr>p_id := 5\<rparr>) = Some ''pending'' \<and>
   getPackage (snd (createDelivery 5000 sample_insert_delivery renumbered_pending_store)) 1 =
     Some (sample_package\<lparr>p_id := 5\<rparr>) \<and>
   getPackage renumbered_pending_store 5 = None \<and>
   getPackage (snd (createDelivery 5000 (sample_insert_delivery\<lparr>idl_packageId := 5\<rparr>)
                      renumbered_pending_store)) 5 = None"
  by (simp add: renumbered_pending_store_def createDelivery_def updatePackage_def getPackage_def
      map_get_def map_set_def Let_def sample_package_def sample_insert_delivery_def)

text \<open>
  Claim C2. \<open>updateDeliveryStatus\<close> with the status \<open>"delivered"\<close> is to set the status of
  the linked package to \<open>"delivered"\<close>. In the store where the delivery 1 is linked to the
  package under key 1 and that package has the \<open>id\<close> field 5, the delivery becomes
  delivered and the package stays matched: the update goes to key 5, which holds nothing.
\<close>

theorem updateDeliveryStatus_renumbered:
  "getDelivery renumbered_matched_store 1 = Some sample_delivery \<and>
   getPackage renumbered_matched_store (d_packageId sample_delivery) =
     Some (sample_package\<lparr>p_id := 5, p_status := Some ''matched''\<rparr>) \<and>
   getDelivery (snd (updateDeliveryStatus 9000 1 ''delivered'' renumbered_matched_store)) 1 =
     Some (sample_delivery\<lparr>d_status := ''delivered'', d_updatedAt := 9000\<rparr>) \<and>
   getPackage (snd (updateDeliveryStatus 9000 1 ''delivered'' renumbered_matched_store)) 1 =
     Some (sample_package\<lparr>p_id := 5, p_status := Some ''matched''\<rparr>)"
  by (simp add: renumbered_matched_store_def sample_store_def updateDeliveryStatus_def
      updatePackage_def getPackage_def getDelivery_def map_get_def map_set_def Let_def
      sample_package_def sample_delivery_def)

text \<open>
  Claim C10. The delivery that \<open>createDelivery\<close> returns has status \<open>"pending"\<close> and
  payment status \<open>"pending"\<close> for every payload, clock value and store, and \<open>getDelivery\<close>
  of its id returns that delivery afterwards. The payload type \<open>insert_delivery\<close> has no
  status field to set.
\<close>

theorem createDelivery_pending:
  "d_status (fst (createDelivery now deliveryData s)) = ''pending'' \<and>
   d_paymentStatus (fst (createDelivery now deliveryData s)) = ''pending'' \<and>
   getDelivery (snd (createDelivery now deliveryData s))
     (d_id (fst (createDelivery now deliveryData s))) =
     Some (fst (createDelivery now deliveryData s))"
  by (simp add: createDelivery_def Let_def getDelivery_def updatePackage_deliveries
      map_get_set_same split: option.splits)

subsection \<open>Unknown ids\<close>

text \<open>
  Claim C8. For an id that is no key of the map concerned, each of \<open>getUser\<close>, \<open>getTrip\<close>,
  \<open>getPackage\<close>, \<open>getDelivery\<close>, \<open>getMessage\<close> and \<open>getReview\<close> returns the absent result
  (\<open>None\<close>; the functions have no error result), and \<open>updateUserVerification\<close> of an
  unknown user id fails with the not-found error and returns the store it was given.
\<close>

theorem unknown_id:
  "(i \<notin> fst ` set (users s) \<longrightarrow>
      getUser s i = None \<and> updateUserVerification i verificationData s = (Inl UserNotFound, s)) \<and>
   (i \<notin> fst ` set (trips s) \<longrightarrow> getTrip s i = None) \<and>
   (i \<notin> fst ` set (packages s) \<longrightarrow> getPackage s i = None) \<and>
   (i \<notin> fst ` set (deliveries s) \<longrightarrow> getDelivery s i = None) \<and>
   (i \<notin> fst ` set (messages s) \<longrightarrow> getMessage s i = None) \<and>
   (i \<notin> fst ` set (reviews s) \<longrightarrow> getReview s i = None)"
  by (simp add: getUser_def getTrip_def getPackage_def getDelivery_def getMessage_def
      getReview_def updateUserVerification_def map_get_None)

theorem unknown_id_witness:
  "99 \<notin> fst ` set (users sample_store) \<and> 99 \<notin> fst ` set (trips sample_store) \<and>
   99 \<notin> fst ` set (packages sample_store) \<and> 99 \<notin> fst ` set (deliveries sample_store) \<and>
   99 \<notin> fst ` set (messages sample_store) \<and> 99 \<notin> fst ` set (reviews sample_store) \<and>
   getUser sample_store 99 = None \<and>
   updateUserVerification 99
     \<lparr>vp_idVerified = Some True, vp_phoneVerified = None, vp_addressVerified = None\<rparr>
     sample_store = (Inl UserNotFound, sample_store) \<and>
   getTrip sample_store 99 = None \<and> getPackage sample_store 99 = None \<and>
   getDelivery sample_store 99 = None \<and> getMessage sample_store 99 = None \<and>
   getReview sample_store 99 = None"
proof -
  have k: "99 \<notin> fst ` set (users sample_store)" "99 \<notin> fst ` set (trips sample_store)"
    "99 \<notin> fst ` set (packages sample_store)" "99 \<notin> fst ` set (deliveries sample_store)"
    "99 \<notin> fst ` set (messages sample_store)" "99 \<notin> fst ` set (reviews sample_store)"
    by (simp_all add: sample_store_def)
  show ?thesis
    using k unknown_id [of 99 sample_store
        "\<lparr>vp_idVerified = Some True, vp_phoneVerified = None, vp_addressVerified = None\<rparr>"]
    by simp
qed

subsection \<open>The weight filters\<close>

lemma sample_getTrips_weight:
  "getTrips sample_store (Some weight_trip_filter) = [sample_trip]"
  by (simp add: getTrips_def Let_def sample_store_def map_values_def weight_trip_filter_def
      no_trip_filters_def sample_trip_def truthy_def)

lemma sample_getPackages_weight:
  "getPackages sample_store (Some weight_package_filter) =
     [sample_package\<lparr>p_status := Some ''matched''\<rparr>]"
  by (simp add: getPackages_def Let_def sample_store_def map_values_def
      weight_package_filter_def no_package_filters_def sample_package_def truthy_def)

text \<open>
  Claim C6. When the filter object supplies \<open>availableWeight = w\<close>, every trip that
  \<open>getTrips\<close> returns has an available weight of at least \<open>w\<close>; when it supplies
  \<open>weight = w\<close>, every package that \<open>getPackages\<close> returns weighs at most \<open>w\<close>.
\<close>

theorem weight_filters:
  "(tp_availableWeight f = Some w \<longrightarrow>
      (\<forall>t \<in> set (getTrips s (Some f)). t_availableWeight t \<ge> w)) \<and>
   (pp_weight g = Some w' \<longrightarrow>
      (\<forall>p \<in> set (getPackages s (Some g)). p_weight p \<le> w'))"
proof (intro conjI impI ballI)
  fix t
  assume "tp_availableWeight f = Some w" and "t \<in> set (getTrips s (Some f))"
  then show "t_availableWeight t \<ge> w"
    by (simp add: getTrips_def Let_def)
next
  fix p
  assume w': "pp_weight g = Some w'" and p: "p \<in> set (getPackages s (Some g))"
  have "set (getPackages s (Some g)) \<subseteq> {p. p_weight p \<le> w'}"
    using w' by (auto simp add: getPackages_def Let_def split: option.splits)
  with p show "p_weight p \<le> w'"
    by blast
qed

theorem weight_filters_witness:
  "tp_availableWeight weight_trip_filter = Some 10 \<and>
   sample_trip \<in> set (getTrips sample_store (Some weight_trip_filter)) \<and>
   t_availableWeight sample_trip \<ge> 10 \<and>
   pp_weight weight_package_filter = Some 5 \<and>
   sample_package\<lparr>p_status := Some ''matched''\<rparr>
     \<in> set (getPackages sample_store (Some weight_package_filter)) \<and>
   p_weight (sample_package\<lparr>p_status := Some ''matched''\<rparr>) \<le> 5"
proof -
  have h1: "tp_availableWeight weight_trip_filter = Some 10"
    by (simp add: weight_trip_filter_def)
  have h2: "pp_weight weight_package_filter = Some 5"
    by (simp add: weight_package_filter_def)
  show ?thesis
    using h1 h2
      weight_filters [of weight_trip_filter 10 sample_store weight_package_filter 5]
    by (simp add: sample_getTrips_weight sample_getPackages_weight)
qed

subsection \<open>Message queries\<close>

lemma sorted_desc_map:
  "sorted (map (\<lambda>x. - f x) xs) = sorted_wrt (\<lambda>a b. a \<ge> b) (map (f :: 'a \<Rightarrow> int) xs)"
  by (simp add: sorted_wrt_map)

text \<open>
  Claim C7. \<open>getMessagesBetweenUsers\<close> returns the same messages for \<open>(A, B)\<close> and for
  \<open>(B, A)\<close> (the same list, hence the same set): those sent by one of the two to the other,
  in ascending order of creation time. \<open>getMessagesByUserId A\<close> returns the messages that
  \<open>A\<close> sent or received, in descending order of creation time.
\<close>

theorem message_queries:
  "getMessagesBetweenUsers s a b = getMessagesBetweenUsers s b a \<and>
   set (getMessagesBetweenUsers s a b) =
     {m \<in> set (map_values (messages s)).
        (m_senderId m = a \<and> m_receiverId m = b) \<or> (m_senderId m = b \<and> m_receiverId m = a)} \<and>
   sorted (map m_createdAt (getMessagesBetweenUsers s a b)) \<and>
   set (getMessagesByUserId s a) =
     {m \<in> set (map_values (messages s)). m_senderId m = a \<or> m_receiverId m = a} \<and>
   sorted_wrt (\<lambda>x y. x \<ge> y) (map m_createdAt (getMessagesByUserId s a))"
proof -
  have swap: "(\<lambda>m. (m_senderId m = a \<and> m_receiverId m = b) \<or>
                    (m_senderId m = b \<and> m_receiverId m = a)) =
              (\<lambda>m. (m_senderId m = b \<and> m_receiverId m = a) \<or>
                    (m_senderId m = a \<and> m_receiverId m = b))"
    by auto
  have 1: "getMessagesBetweenUsers s a b = getMessagesBetweenUsers s b a"
    unfolding getMessagesBetweenUsers_def by (subst swap) simp
  have 2: "set (getMessagesBetweenUsers s a b) =
     {m \<in> set (map_values (messages s)).
        (m_senderId m = a \<and> m_receiverId m = b) \<or> (m_senderId m = b \<and> m_receiverId m = a)}"
    by (simp add: getMessagesBetweenUsers_def)
  have 3: "sorted (map m_createdAt (getMessagesBetweenUsers s a b))"
    by (simp add: getMessagesBetweenUsers_def)
  have 4: "set (getMessagesByUserId s a) =
     {m \<in> set (map_values (messages s)). m_senderId m = a \<or> m_receiverId m = a}"
    by (simp add: getMessagesByUserId_def)
  have "sorted (map (\<lambda>m. - m_createdAt m) (getMessagesByUserId s a))"
    unfolding getMessagesByUserId_def by (rule sorted_sort_key)
  then have 5: "sorted_wrt (\<lambda>x y. x \<ge> y) (map m_createdAt (getMessagesByUserId s a))"
    by (simp only: sorted_desc_map)
  from 1 2 3 4 5 show ?thesis by blast
qed

lemma sample_messages:
  "getMessagesBetweenUsers sample_store 1 2 = [sample_message1, sample_message2] \<and>
   getMessagesBetweenUsers sample_store 2 1 = [sample_message1, sample_message2] \<and>
   getMessagesByUserId sample_store 1 = [sample_message2, sample_message1]"
  by (simp add: getMessagesBetweenUsers_def getMessagesByUserId_def sample_store_def
      map_values_def sample_message1_def sample_message2_def)

subsection \<open>The verification flags\<close>

lemma map_set_member:
  "(k', v') \<in> set (map_set m k v) \<Longrightarrow> (k', v') = (k, v) \<or> (k', v') \<in> set m"
  unfolding map_set_def by (induction m) (auto split: if_splits)

lemma map_get_member: "map_get m k = Some v \<Longrightarrow> (k, v) \<in> set m"
  by (simp add: map_get_def map_of_SomeD)

lemma list_all_values_set:
  "list_all P (map_values m) \<Longrightarrow> P v \<Longrightarrow> list_all P (map_values (map_set m k v))"
  by (auto simp add: list_all_iff map_values_def dest: map_set_member)

lemma list_all_values_get:
  "list_all P (map_values m) \<Longrightarrow> map_get m k = Some v \<Longrightarrow> P v"
  by (auto simp add: list_all_iff map_values_def dest!: map_get_member)

lemma updatePackage_users: "users (snd (updatePackage i d s)) = users s"
  by (simp add: updatePackage_def Let_def split: option.splits)

lemma createUser_agree:
  "users_verified_agree s \<Longrightarrow> users_verified_agree (snd (createUser h now d s))"
  by (simp add: users_verified_agree_def createUser_def Let_def list_all_values_set
      verified_agrees_def)

lemma updateUserVerification_agree:
  "users_verified_agree s \<Longrightarrow> users_verified_agree (snd (updateUserVerification uid d s))"
  by (simp add: users_verified_agree_def updateUserVerification_def Let_def
      list_all_values_set verified_agrees_def split: option.splits)

lemma createReview_agree:
  assumes "users_verified_agree s"
  shows "users_verified_agree (snd (createReview now d s))"
proof (cases "getUser s (ir_revieweeId d)")
  case None
  then show ?thesis
    using assms by (simp add: users_verified_agree_def createReview_def Let_def getUser_def)
next
  case (Some user)
  have "verified_agrees user"
    using assms Some list_all_values_get [of verified_agrees "users s" "ir_revieweeId d" user]
    by (simp add: users_verified_agree_def getUser_def)
  then have "verified_agrees (user\<lparr>u_rating := r, u_reviewCount := n\<rparr>)" for r n
    by (simp add: verified_agrees_def)
  then show ?thesis
    using assms Some
    by (simp add: users_verified_agree_def createReview_def Let_def getUser_def
        list_all_values_set)
qed

lemma apply_op_agree: "users_verified_agree s \<Longrightarrow> users_verified_agree (apply_op op s)"
proof (cases op)
  case (CreateUser h now d)
  then show "users_verified_agree s \<Longrightarrow> ?thesis" by (simp add: createUser_agree)
next
  case (UpdateUserVerification uid d)
  then show "users_verified_agree s \<Longrightarrow> ?thesis" by (simp add: updateUserVerification_agree)
next
  case (CreateReview now d)
  then show "users_verified_agree s \<Longrightarrow> ?thesis" by (simp add: createReview_agree)
next
  case (CreateDelivery now d)
  then show "users_verified_agree s \<Longrightarrow> ?thesis"
    by (simp add: users_verified_agree_def createDelivery_def Let_def updatePackage_users
        split: option.splits)
next
  case (UpdateDeliveryStatus now i st)
  then show "users_verified_agree s \<Longrightarrow> ?thesis"
    by (simp add: users_verified_agree_def updateDeliveryStatus_def Let_def updatePackage_users
        split: option.splits)
qed (simp_all add: users_verified_agree_def createTrip_def updateTrip_def createPackage_def
    updatePackage_def updatePaymentStatus_def createMessage_def markMessageAsRead_def Let_def
    split: option.splits)

lemma run_agree: "users_verified_agree s \<Longrightarrow> users_verified_agree (run ops s)"
  by (induction ops arbitrary: s) (simp_all add: apply_op_agree)

lemma new_agree: "users_verified_agree MemStorage_new"
  by (simp add: users_verified_agree_def MemStorage_new_def map_values_def)

text \<open>
  Claim C9. In the store reached from the empty store by any list of storage operations,
  the \<open>isVerified\<close> flag of every user is the conjunction of \<open>idVerified\<close>,
  \<open>phoneVerified\<close> and \<open>addressVerified\<close> of that user's verification status.
\<close>

theorem isVerified_conjunction:
  assumes "u \<in> set (map_values (users (run ops MemStorage_new)))"
  shows "u_isVerified u =
           (idVerified (u_verificationStatus u) \<and> phoneVerified (u_verificationStatus u) \<and>
            addressVerified (u_verificationStatus u))"
proof -
  have "users_verified_agree (run ops MemStorage_new)"
    by (rule run_agree [OF new_agree])
  with assms have "verified_agrees u"
    by (simp add: users_verified_agree_def list_all_iff)
  then show ?thesis by (simp add: verified_agrees_def)
qed

lemma verification_ops_run:
  "users (run verification_ops MemStorage_new) = [(1, verified_user1)]"
  by (simp add: verification_ops_def MemStorage_new_def createUser_def
      updateUserVerification_def getUser_def map_get_def map_set_def Let_def
      spread_verification_def spread_def verified_user1_def sample_user1_def)

theorem isVerified_conjunction_witness:
  "verified_user1 \<in> set (map_values (users (run verification_ops MemStorage_new))) \<and>
   u_isVerified verified_user1 \<and> idVerified (u_verificationStatus verified_user1) \<and>
   phoneVerified (u_verificationStatus verified_user1) \<and>
   addressVerified (u_verificationStatus verified_user1) \<and>
   sample_user2 \<in> set (map_values (users (run sample_ops MemStorage_new))) \<and>
   \<not> u_isVerified sample_user2 \<and> \<not> idVerified (u_verificationStatus sample_user2)"
proof -
  have h1: "verified_user1 \<in> set (map_values (users (run verification_ops MemStorage_new)))"
    by (simp add: verification_ops_run map_values_def)
  have h2: "sample_user2 \<in> set (map_values (users (run sample_ops MemStorage_new)))"
    by (simp add: sample_store_run sample_store_def map_values_def)
  have v: "idVerified (u_verificationStatus verified_user1)"
     "\<not> idVerified (u_verificationStatus sample_user2)"
    by (simp_all add: verified_user1_def sample_user2_def)
  show ?thesis
    using h1 h2 v isVerified_conjunction [OF h1] isVerified_conjunction [OF h2]
    by (simp add: verified_user1_def)
qed

subsection \<open>Numbers\<close>




lemma js_div_nat:
  "n > 0 \<Longrightarrow> js_div (Finite x) (Finite (of_nat n)) = to_double (x / of_nat n)"
  by simp


subsection \<open>Ratings\<close>















subsection \<open>The trip filters\<close>

lemma startsWith_iff: "startsWith s sub \<longleftrightarrow> (\<exists>suf. s = sub @ suf)"
  by (induction s sub rule: startsWith.induct) auto

lemma str_includes_iff: "str_includes hay sub \<longleftrightarrow> (\<exists>pre suf. hay = pre @ sub @ suf)"
proof (induction hay)
  case Nil
  then show ?case by simp
next
  case (Cons x xs)
  show ?case
  proof
    assume "str_includes (x # xs) sub"
    then consider "startsWith (x # xs) sub" | "str_includes xs sub" by auto
    then show "\<exists>pre suf. x # xs = pre @ sub @ suf"
    proof cases
      case 1
      then obtain suf where "x # xs = sub @ suf" by (auto simp add: startsWith_iff)
      then have "x # xs = [] @ sub @ suf" by simp
      then show ?thesis by blast
    next
      case 2
      then obtain pre suf where "xs = pre @ sub @ suf" using Cons.IH by blast
      then have "x # xs = (x # pre) @ sub @ suf" by simp
      then show ?thesis by blast
    qed
  next
    assume "\<exists>pre suf. x # xs = pre @ sub @ suf"
    then obtain pre suf where e: "x # xs = pre @ sub @ suf" by blast
    show "str_includes (x # xs) sub"
    proof (cases pre)
      case Nil
      with e have "startsWith (x # xs) sub" by (auto simp add: startsWith_iff)
      then show ?thesis by simp
    next
      case (Cons p ps)
      with e have "xs = ps @ sub @ suf" by simp
      then have "str_includes xs sub" using Cons.IH by blast
      then show ?thesis by simp
    qed
  qed
qed

lemma str_includes_ci: "str_includes (toLowerCase hay) (toLowerCase needle) = ci_substring needle hay"
  by (simp add: str_includes_iff ci_substring_def)

lemma ci_substring_empty: "ci_substring [] hay"
proof -
  have "toLowerCase hay = [] @ toLowerCase [] @ toLowerCase hay"
    by (simp add: toLowerCase_def)
  then show ?thesis
    unfolding ci_substring_def by blast
qed

text \<open>
  On the in-memory store, \<open>getTrips\<close> returns exactly the stored trips that meet the
  filtering contract, in the order of the map.
\<close>

lemma getTrips_contract:
  "getTrips s filters = filter (trip_matches filters) (map_values (trips s))"
proof (cases filters)
  case None
  then show ?thesis
    by (auto simp add: getTrips_def trip_matches_def truthy_def intro!: filter_cong)
next
  case (Some f)
  show ?thesis
    unfolding Some getTrips_def trip_matches_def Let_def
    by (auto simp add: str_includes_ci ci_substring_empty truthy_def
        split: option.splits intro!: filter_cong)
qed

lemma lower_addis: "toLowerCase ''Addis Ababa'' = ''addis ababa''"
  by (simp add: toLowerCase_def toLowerChar_def)

lemma lower_a_d: "toLowerCase ''a_d'' = ''a_d''"
  by (simp add: toLowerCase_def toLowerChar_def)

lemma like_a_d: "like_match ''addis ababa'' ''%a_d%''"
  by simp

lemma not_includes_a_d: "\<not> str_includes ''addis ababa'' ''a_d''"
  by simp

section \<open>The database-backed list queries against the in-memory ones\<close>

lemma sample_trips_rows: "map_values (trips sample_store) = [sample_trip]"
  by (simp add: sample_store_def map_values_def)

lemma sample_packages_rows:
  "map_values (packages sample_store) = [sample_package\<lparr>p_status := Some ''matched''\<rparr>]"
  by (simp add: sample_store_def map_values_def)

lemma sample_Pg_getTrips_wildcard:
  "Pg_getTrips [sample_trip] (Some wildcard_trip_filter) = [sample_trip]"
  by (simp add: Pg_getTrips_def Let_def wildcard_trip_filter_def no_trip_filters_def
      sql_where_def sql_all_def sql_and_def sql_eq_def sql_like_def sample_trip_def
      lower_addis lower_a_d)

lemma sample_getTrips_wildcard:
  "getTrips sample_store (Some wildcard_trip_filter) = []"
  by (simp add: getTrips_def Let_def sample_trips_rows wildcard_trip_filter_def
      no_trip_filters_def sample_trip_def truthy_def lower_addis lower_a_d)

lemma sample_not_matches_wildcard:
  "\<not> trip_matches (Some wildcard_trip_filter) sample_trip"
proof -
  have "\<not> ci_substring ''a_d'' ''Addis Ababa''"
    unfolding str_includes_ci [symmetric] lower_addis lower_a_d by simp
  then show ?thesis
    by (simp add: trip_matches_def wildcard_trip_filter_def no_trip_filters_def sample_trip_def)
qed

text \<open>
  Claim C4. \<open>getTrips\<close> is to return exactly the active trips for which every supplied
  predicate holds, the string predicates being case-insensitive substring matches. The
  in-memory \<open>getTrips\<close> does (\<open>getTrips_contract\<close>). The database-backed query does
  not: it passes the filter string to \<open>LIKE\<close> between two \<open>%\<close> without escaping it, so
  for the filter \<open>destinationCity = "a_d"\<close> it returns the trip to Addis Ababa, whose
  city does not contain \<open>a_d\<close>; the in-memory store returns no trip for the same filter.
\<close>

theorem Pg_getTrips_wildcard:
  "Pg_getTrips (map_values (trips sample_store)) (Some wildcard_trip_filter) = [sample_trip] \<and>
   \<not> trip_matches (Some wildcard_trip_filter) sample_trip \<and>
   getTrips sample_store (Some wildcard_trip_filter) = []"
  by (simp only: sample_trips_rows sample_Pg_getTrips_wildcard sample_not_matches_wildcard
      sample_getTrips_wildcard not_False_eq_True simp_thms)

lemma sample_getPackages_deadline:
  "getPackages sample_store (Some deadline_package_filter) =
     [sample_package\<lparr>p_status := Some ''matched''\<rparr>]"
  by (simp add: getPackages_def Let_def sample_packages_rows deadline_package_filter_def
      no_package_filters_def sample_package_def truthy_def)

lemma sample_Pg_getPackages_deadline:
  "Pg_getPackages [sample_package\<lparr>p_status := Some ''matched''\<rparr>]
     (Some deadline_package_filter) = []"
  by (simp add: Pg_getPackages_def Let_def deadline_package_filter_def no_package_filters_def
      sql_where_def sql_all_def sql_and_def sql_eq_def sql_ge_def sample_package_def)

text \<open>
  Claim C5. The two implementations are to return the same set of entities from
  \<open>getTrips\<close> and \<open>getPackages\<close>. On the rows of the sample store they do not: with a
  deadline filter the in-memory \<open>getPackages\<close> returns the package that has no deadline
  and the database-backed one drops it (\<open>NULL >= d\<close> is not true), and with the filter
  \<open>destinationCity = "a_d"\<close> the in-memory \<open>getTrips\<close> returns nothing and the
  database-backed one returns the trip to Addis Ababa.
\<close>

theorem storage_filters_differ:
  "set (getPackages sample_store (Some deadline_package_filter)) =
     {sample_package\<lparr>p_status := Some ''matched''\<rparr>} \<and>
   set (Pg_getPackages (map_values (packages sample_store)) (Some deadline_package_filter)) = {} \<and>
   set (getTrips sample_store (Some wildcard_trip_filter)) = {} \<and>
   set (Pg_getTrips (map_values (trips sample_store)) (Some wildcard_trip_filter)) =
     {sample_trip}"
  by (simp add: sample_trips_rows sample_packages_rows sample_getPackages_deadline
      sample_Pg_getPackages_deadline sample_getTrips_wildcard sample_Pg_getTrips_wildcard)

subsection \<open>Where the two implementations agree\<close>

lemma sql_and_True: "sql_and a b = Some True \<longleftrightarrow> a = Some True \<and> b = Some True"
  by (cases a; cases b) (auto simp add: sql_and_def)

lemma sql_eq_True: "sql_eq a (Some b) = Some True \<longleftrightarrow> a = Some b"
  by (cases a) (auto simp add: sql_eq_def)

lemma sql_ge_True: "sql_ge a (Some b) = Some True \<longleftrightarrow> (\<exists>x. a = Some x \<and> x \<ge> b)"
  by (cases a) (auto simp add: sql_ge_def)

lemma sql_le_True: "sql_le a (Some b) = Some True \<longleftrightarrow> (\<exists>x. a = Some x \<and> x \<le> b)"
  by (cases a) (auto simp add: sql_le_def)

lemma sql_like_True: "sql_like (Some s) (Some p) = Some True \<longleftrightarrow> like_match s p"
  by (simp add: sql_like_def)

lemma sql_all_append:
  "sql_all (cs @ ds) r = Some True \<longleftrightarrow> sql_all cs r = Some True \<and> sql_all ds r = Some True"
  by (induction cs) (auto simp add: sql_all_def sql_and_True)

lemma sql_where_Nil: "sql_where [] rows = rows"
  by (simp add: sql_where_def sql_all_def)

lemma sql_where_Cons:
  "sql_where (c # cs) rows = sql_where cs (filter (\<lambda>r. c r = Some True) rows)"
  by (auto simp add: sql_where_def sql_all_def sql_and_True intro!: filter_cong)

lemma sql_where_append: "sql_where (cs @ ds) rows = sql_where ds (sql_where cs rows)"
  by (auto simp add: sql_where_def sql_all_append intro!: filter_cong)

declare like_match.simps [simp del]

lemma like_match_Nil: "like_match s [] = (s = [])"
  by (simp add: like_match.simps)

lemma like_match_any: "like_match s ''%''"
  by (induction s) (simp_all add: like_match.simps)

lemma like_match_percent:
  "like_match s (CHR ''%'' # p) \<longleftrightarrow> (\<exists>pre rest. s = pre @ rest \<and> like_match rest p)"
proof (induction s)
  case Nil
  then show ?case by (simp add: like_match.simps(2) [of _ "CHR ''%''"])
next
  case (Cons c cs)
  show ?case
  proof
    assume "like_match (c # cs) (CHR ''%'' # p)"
    then consider "like_match (c # cs) p" | "like_match cs (CHR ''%'' # p)"
      by (auto simp add: like_match.simps(2) [of _ "CHR ''%''"])
    then show "\<exists>pre rest. c # cs = pre @ rest \<and> like_match rest p"
    proof cases
      case 1
      then have "c # cs = [] @ (c # cs) \<and> like_match (c # cs) p" by simp
      then show ?thesis by blast
    next
      case 2
      then obtain pre rest where "cs = pre @ rest" "like_match rest p"
        using Cons.IH by blast
      then have "c # cs = (c # pre) @ rest \<and> like_match rest p" by simp
      then show ?thesis by blast
    qed
  next
    assume "\<exists>pre rest. c # cs = pre @ rest \<and> like_match rest p"
    then obtain pre rest where e: "c # cs = pre @ rest" and m: "like_match rest p" by blast
    show "like_match (c # cs) (CHR ''%'' # p)"
    proof (cases pre)
      case Nil
      with e m show ?thesis by (simp add: like_match.simps(2) [of _ "CHR ''%''"])
    next
      case (Cons x xs)
      with e have "cs = xs @ rest" by simp
      with m have "like_match cs (CHR ''%'' # p)" using Cons.IH by blast
      then show ?thesis by (simp add: like_match.simps(2) [of _ "CHR ''%''"])
    qed
  qed
qed

lemma like_match_literal:
  "like_plain n \<Longrightarrow> like_match s (n @ p) \<longleftrightarrow> (\<exists>rest. s = n @ rest \<and> like_match rest p)"
proof (induction n arbitrary: s)
  case Nil
  then show ?case by simp
next
  case (Cons x xs)
  then have x: "x \<noteq> CHR ''%''" "x \<noteq> CHR ''_''" "x \<noteq> CHR 0x5C" and xs: "like_plain xs"
    by (simp_all add: like_plain_def)
  show ?case
  proof (cases s)
    case Nil
    then show ?thesis using x by (simp add: like_match.simps(2) [of _ x])
  next
    case (Cons c cs)
    then show ?thesis
      using x Cons.IH [OF xs, of cs] by (auto simp add: like_match.simps(2) [of _ x])
  qed
qed

lemma like_match_contains:
  assumes "like_plain n"
  shows "like_match s (''%'' @ n @ ''%'') = str_includes s n"
proof -
  have "like_match s (''%'' @ n @ ''%'') \<longleftrightarrow>
          (\<exists>pre rest. s = pre @ rest \<and> like_match rest (n @ ''%''))"
    using like_match_percent [of s "n @ ''%''"] by simp
  also have "\<dots> \<longleftrightarrow> (\<exists>pre suf. s = pre @ n @ suf)"
    by (auto simp add: like_match_literal [OF assms] like_match_any)
  finally show ?thesis by (simp add: str_includes_iff)
qed

lemma toLowerChar_range:
  "toLowerChar c = c \<or> toLowerChar c \<in> set ''abcdefghijklmnopqrstuvwxyz''"
proof (cases "map_of (zip ''ABCDEFGHIJKLMNOPQRSTUVWXYZ'' ''abcdefghijklmnopqrstuvwxyz'') c")
  case None
  then have "toLowerChar c = c"
    unfolding toLowerChar_def by (simp only: option.case)
  then show ?thesis by blast
next
  case (Some l)
  then have "toLowerChar c = l"
    unfolding toLowerChar_def by (simp only: option.case)
  moreover have "l \<in> set ''abcdefghijklmnopqrstuvwxyz''"
    using Some by (blast dest: map_of_SomeD set_zip_rightD)
  ultimately show ?thesis by blast
qed

lemma like_plain_lower: "like_plain a \<Longrightarrow> like_plain (toLowerCase a)"
proof (induction a)
  case Nil
  then show ?case by (simp add: toLowerCase_def like_plain_def)
next
  case (Cons c cs)
  then have c: "c \<noteq> CHR ''%''" "c \<noteq> CHR ''_''" "c \<noteq> CHR 0x5C" and "like_plain (toLowerCase cs)"
    by (simp_all add: like_plain_def)
  moreover have "toLowerChar c \<noteq> CHR ''%'' \<and> toLowerChar c \<noteq> CHR ''_'' \<and> toLowerChar c \<noteq> CHR 0x5C"
    using toLowerChar_range [of c] c by auto
  ultimately show ?case by (simp add: toLowerCase_def like_plain_def)
qed

lemma like_lower_contains:
  "like_plain a \<Longrightarrow>
   like_match (toLowerCase s) (CHR ''%'' # toLowerCase a @ ''%'') =
     str_includes (toLowerCase s) (toLowerCase a)"
  using like_match_contains [OF like_plain_lower, of a "toLowerCase s"] by simp

text \<open>
  With string filters that hold no character special to \<open>LIKE\<close>, the database-backed
  \<open>getTrips\<close> on the rows of the trip map returns the list the in-memory one returns.
\<close>

lemma Pg_getTrips_agrees:
  assumes a1: "case tp_departureAirport f of None \<Rightarrow> True | Some a \<Rightarrow> like_plain a"
      and a2: "case tp_destinationCity f of None \<Rightarrow> True | Some c \<Rightarrow> like_plain c"
  shows "Pg_getTrips (map_values (trips s)) (Some f) = getTrips s (Some f)"
proof -
  define rows where "rows = map_values (trips s)"
  define c0 :: "(trip \<Rightarrow> sql_bool) list"
    where "c0 = [\<lambda>r. sql_eq (t_isActive r) (Some True)]"
  define c1 where "c1 =
    (case tp_departureAirport f of
       None \<Rightarrow> c0
     | Some a \<Rightarrow>
         if a = [] then c0
         else c0 @ [\<lambda>r. sql_like (Some (toLowerCase (t_departureAirport r)))
                           (Some (''%'' @ toLowerCase a @ ''%''))])"
  define c2 where "c2 =
    (case tp_destinationCity f of
       None \<Rightarrow> c1
     | Some c \<Rightarrow>
         if c = [] then c1
         else c1 @ [\<lambda>r. sql_like (Some (toLowerCase (t_destinationCity r)))
                           (Some (''%'' @ toLowerCase c @ ''%''))])"
  define c3 where "c3 =
    (case tp_departureDate f of
       None \<Rightarrow> c2
     | Some d \<Rightarrow> c2 @ [\<lambda>r. sql_ge (Some (t_departureDate r)) (Some d)])"
  define c4 where "c4 =
    (case tp_availableWeight f of
       None \<Rightarrow> c3
     | Some w \<Rightarrow> c3 @ [\<lambda>r. sql_ge (Some (t_availableWeight r)) (Some w)])"
  define t0 where "t0 = filter (\<lambda>trip. truthy (t_isActive trip)) rows"
  define t1 where "t1 =
    (case tp_departureAirport f of
       None \<Rightarrow> t0
     | Some a \<Rightarrow>
         if a = [] then t0
         else filter (\<lambda>trip. str_includes (toLowerCase (t_departureAirport trip))
                                 (toLowerCase a)) t0)"
  define t2 where "t2 =
    (case tp_destinationCity f of
       None \<Rightarrow> t1
     | Some c \<Rightarrow>
         if c = [] then t1
         else filter (\<lambda>trip. str_includes (toLowerCase (t_destinationCity trip))
                                 (toLowerCase c)) t1)"
  define t3 where "t3 =
    (case tp_departureDate f of
       None \<Rightarrow> t2
     | Some filterDate \<Rightarrow> filter (\<lambda>trip. t_departureDate trip \<ge> filterDate) t2)"
  define t4 where "t4 =
    (case tp_availableWeight f of
       None \<Rightarrow> t3
     | Some w \<Rightarrow> filter (\<lambda>trip. t_availableWeight trip \<ge> w) t3)"
  have e0: "sql_where c0 rows = t0"
    by (simp add: c0_def t0_def sql_where_Cons sql_where_Nil sql_eq_True truthy_def)
  have e1: "sql_where c1 rows = t1"
    using a1 e0
    by (simp add: c1_def t1_def sql_where_append sql_where_Cons sql_where_Nil sql_like_True
        like_lower_contains split: option.splits)
  have e2: "sql_where c2 rows = t2"
    using a2 e1
    by (simp add: c2_def t2_def sql_where_append sql_where_Cons sql_where_Nil sql_like_True
        like_lower_contains split: option.splits)
  have e3: "sql_where c3 rows = t3"
    using e2
    by (simp add: c3_def t3_def sql_where_append sql_where_Cons sql_where_Nil sql_ge_True
        split: option.splits)
  have e4: "sql_where c4 rows = t4"
    using e3
    by (simp add: c4_def t4_def sql_where_append sql_where_Cons sql_where_Nil sql_ge_True
        split: option.splits)
  have "Pg_getTrips (map_values (trips s)) (Some f) = sql_where c4 rows"
    unfolding Pg_getTrips_def Let_def c4_def c3_def c2_def c1_def c0_def rows_def
    by (simp only: option.case)
  moreover have "getTrips s (Some f) = t4"
    unfolding getTrips_def Let_def t4_def t3_def t2_def t1_def t0_def rows_def
    by (simp only: option.case)
  ultimately show ?thesis
    using e4 by simp
qed

lemma Pg_getTrips_agrees_default:
  "Pg_getTrips (map_values (trips s)) None = getTrips s None"
  unfolding Pg_getTrips_def getTrips_def Let_def
  by (simp add: sql_where_Cons sql_where_Nil sql_eq_True truthy_def no_trip_filters_def)


text \<open>
  The same for \<open>getPackages\<close>, when moreover no deadline filter is supplied or every
  stored package has a deadline.
\<close>

lemma Pg_getPackages_agrees:
  assumes a1: "case pp_senderCity f of None \<Rightarrow> True | Some c \<Rightarrow> like_plain c"
      and a2: "case pp_receiverCity f of None \<Rightarrow> True | Some c \<Rightarrow> like_plain c"
      and a3: "(case pp_deliveryDeadline f of Some (Some d) \<Rightarrow> False | _ \<Rightarrow> True) \<or>
               list_all (\<lambda>p. p_deliveryDeadline p \<noteq> None) (map_values (packages s))"
  shows "Pg_getPackages (map_values (packages s)) (Some f) = getPackages s (Some f)"
proof -
  define rows where "rows = map_values (packages s)"
  define c0 :: "(package \<Rightarrow> sql_bool) list"
    where "c0 = [\<lambda>r. sql_eq (p_isActive r) (Some True)]"
  define c1 where "c1 =
    (case pp_senderCity f of
       None \<Rightarrow> c0
     | Some c \<Rightarrow>
         if c = [] then c0
         else c0 @ [\<lambda>r. sql_like (Some (toLowerCase (p_senderCity r)))
                           (Some (''%'' @ toLowerCase c @ ''%''))])"
  define c2 where "c2 =
    (case pp_receiverCity f of
       None \<Rightarrow> c1
     | Some c \<Rightarrow>
         if c = [] then c1
         else c1 @ [\<lambda>r. sql_like (Some (toLowerCase (p_receiverCity r)))
                           (Some (''%'' @ toLowerCase c @ ''%''))])"
  define c3 where "c3 =
    (case pp_packageType f of
       None \<Rightarrow> c2
     | Some ty \<Rightarrow>
         if ty = [] then c2
         else c2 @ [\<lambda>r. sql_eq (Some (p_packageType r)) (Some ty)])"
  define c4 where "c4 =
    (case pp_weight f of
       None \<Rightarrow> c3
     | Some w \<Rightarrow> c3 @ [\<lambda>r. sql_le (Some (p_weight r)) (Some w)])"
  define c5 where "c5 =
    (case pp_deliveryDeadline f of
       Some (Some d) \<Rightarrow> c4 @ [\<lambda>r. sql_ge (p_deliveryDeadline r) (Some d)]
     | _ \<Rightarrow> c4)"
  define p0 where "p0 = filter (\<lambda>pkg. truthy (p_isActive pkg)) rows"
  define p1 where "p1 =
    (case pp_senderCity f of
       None \<Rightarrow> p0
     | Some c \<Rightarrow>
         if c = [] then p0
         else filter (\<lambda>pkg. str_includes (toLowerCase (p_senderCity pkg))
                                (toLowerCase c)) p0)"
  define p2 where "p2 =
    (case pp_receiverCity f of
       None \<Rightarrow> p1
     | Some c \<Rightarrow>
         if c = [] then p1
         else filter (\<lambda>pkg. str_includes (toLowerCase (p_receiverCity pkg))
                                (toLowerCase c)) p1)"
  define p3 where "p3 =
    (case pp_packageType f of
       None \<Rightarrow> p2
     | Some ty \<Rightarrow>
         if ty = [] then p2
         else filter (\<lambda>pkg. p_packageType pkg = ty) p2)"
  define p4 where "p4 =
    (case pp_weight f of
       None \<Rightarrow> p3
     | Some w \<Rightarrow> filter (\<lambda>pkg. p_weight pkg \<le> w) p3)"
  define p5 where "p5 =
    (case pp_deliveryDeadline f of
       Some (Some filterDate) \<Rightarrow>
         filter (\<lambda>pkg. case p_deliveryDeadline pkg of
                         None \<Rightarrow> True
                       | Some packageDate \<Rightarrow> packageDate \<ge> filterDate) p4
     | _ \<Rightarrow> p4)"
  have e0: "sql_where c0 rows = p0"
    by (simp add: c0_def p0_def sql_where_Cons sql_where_Nil sql_eq_True truthy_def)
  have e1: "sql_where c1 rows = p1"
    using a1 e0
    by (simp add: c1_def p1_def sql_where_append sql_where_Cons sql_where_Nil sql_like_True
        like_lower_contains split: option.splits)
  have e2: "sql_where c2 rows = p2"
    using a2 e1
    by (simp add: c2_def p2_def sql_where_append sql_where_Cons sql_where_Nil sql_like_True
        like_lower_contains split: option.splits)
  have e3: "sql_where c3 rows = p3"
    using e2
    by (simp add: c3_def p3_def sql_where_append sql_where_Cons sql_where_Nil sql_eq_True
        split: option.splits)
  have e4: "sql_where c4 rows = p4"
    using e3
    by (simp add: c4_def p4_def sql_where_append sql_where_Cons sql_where_Nil sql_le_True
        split: option.splits)
  have sub: "set p4 \<subseteq> set rows"
    unfolding e4 [symmetric] by (auto simp add: sql_where_def)
  have e5: "sql_where c5 rows = p5"
  proof (cases "pp_deliveryDeadline f")
    case None
    then show ?thesis using e4 by (simp add: c5_def p5_def)
  next
    case (Some dd)
    show ?thesis
    proof (cases dd)
      case None
      with Some show ?thesis using e4 by (simp add: c5_def p5_def)
    next
      case (Some d)
      with \<open>pp_deliveryDeadline f = Some dd\<close> a3
      have "\<forall>p \<in> set rows. p_deliveryDeadline p \<noteq> None"
        by (simp add: list_all_iff rows_def)
      with sub have "\<forall>p \<in> set p4. p_deliveryDeadline p \<noteq> None"
        by blast
      then have "filter (\<lambda>r. sql_ge (p_deliveryDeadline r) (Some d) = Some True) p4 =
                 filter (\<lambda>pkg. case p_deliveryDeadline pkg of
                                 None \<Rightarrow> True
                               | Some packageDate \<Rightarrow> packageDate \<ge> d) p4"
        by (intro filter_cong) (auto simp add: sql_ge_True)
      with Some \<open>pp_deliveryDeadline f = Some dd\<close> e4 show ?thesis
        by (simp add: c5_def p5_def sql_where_append sql_where_Cons sql_where_Nil)
    qed
  qed
  have "Pg_getPackages (map_values (packages s)) (Some f) = sql_where c5 rows"
    unfolding Pg_getPackages_def Let_def c5_def c4_def c3_def c2_def c1_def c0_def rows_def
    by (simp only: option.case)
  moreover have "getPackages s (Some f) = p5"
    unfolding getPackages_def Let_def p5_def p4_def p3_def p2_def p1_def p0_def rows_def
    by (simp only: option.case)
  ultimately show ?thesis
    using e5 by simp
qed

text \<open>The weight filters are the same thresholds in the database-backed queries.\<close>

lemma Pg_weight_filters:
  "(tp_availableWeight f = Some w \<longrightarrow>
      (\<forall>t \<in> set (Pg_getTrips rows (Some f)). t_availableWeight t \<ge> w)) \<and>
   (pp_weight g = Some w' \<longrightarrow>
      (\<forall>p \<in> set (Pg_getPackages rows' (Some g)). p_weight p \<le> w'))"
proof -
  have "t_availableWeight t \<ge> w"
    if "tp_availableWeight f = Some w" "t \<in> set (Pg_getTrips rows (Some f))" for t
    using that unfolding Pg_getTrips_def Let_def
    by (simp add: sql_where_append sql_where_Cons sql_where_Nil sql_ge_True)
  moreover have "p_weight p \<le> w'"
    if "pp_weight g = Some w'" "p \<in> set (Pg_getPackages rows' (Some g))" for p
  proof (cases "pp_deliveryDeadline g")
    case None
    then show ?thesis
      using that unfolding Pg_getPackages_def Let_def
      by (simp add: sql_where_append sql_where_Cons sql_where_Nil sql_le_True)
  next
    case (Some dd)
    then show ?thesis
      using that unfolding Pg_getPackages_def Let_def
      by (cases dd) (simp_all add: sql_where_append sql_where_Cons sql_where_Nil sql_le_True)
  qed
  ultimately show ?thesis by blast
qed

end
